theory Spec2Isabelle
  imports Complex_Main "HOL-Library.Signed_Division"
begin

section \<open>Linear solver summaries\<close>

text \<open>
  \<^verbatim>\<open>LinearSolverTerminationType\<close> and \<^verbatim>\<open>LinearSolver::Summary\<close>. Older sources of the
  repository spell the constructors \<^verbatim>\<open>LINEAR_SOLVER_SUCCESS\<close>, ...; they are the same enum.

  Messages built with \<^verbatim>\<open>StringPrintf\<close> are kept as the format string together with
  its arguments, so no rendering of doubles is assumed.
\<close>

datatype LinearSolverTerminationType = SUCCESS | NO_CONVERGENCE | FAILURE | FATAL_ERROR

datatype 'd printf_arg = IntArg int | DoubleArg 'd

datatype 'd message = Literal string | StringPrintf string "'d printf_arg list"

record 'd Summary =
  termination_type :: LinearSolverTerminationType
  message :: "'d message"
  num_iterations :: int

section \<open>Arithmetic of the solver\<close>

text \<open>
  \<^verbatim>\<open>ConjugateGradientsSolver\<close> is a template over \<^verbatim>\<open>DenseVectorType\<close> and
  \<^verbatim>\<open>LinearOperatorType\<close>, and computes in \<^verbatim>\<open>double\<close>. The model keeps both abstract:
  \<open>'d\<close> is the type of doubles, \<open>'v\<close> the type of dense vectors, and the operations the
  source applies to them are the fields of a record. Every theorem below holds for each
  interpretation of these operations, IEEE-754 arithmetic with rounding, infinities
  and NaN included.
\<close>

record ('d, 'v) dense_ops =
  d_of_int :: "int \<Rightarrow> 'd"            \<comment> \<open>conversion from \<^verbatim>\<open>int\<close>; also the literals 0.0, 1.0, -1.0\<close>
  d_eq :: "'d \<Rightarrow> 'd \<Rightarrow> bool"         \<comment> \<open>\<^verbatim>\<open>==\<close>\<close>
  d_le :: "'d \<Rightarrow> 'd \<Rightarrow> bool"         \<comment> \<open>\<^verbatim>\<open><=\<close>\<close>
  d_lt :: "'d \<Rightarrow> 'd \<Rightarrow> bool"         \<comment> \<open>\<^verbatim>\<open><\<close>\<close>
  d_isinf :: "'d \<Rightarrow> bool"            \<comment> \<open>\<^verbatim>\<open>std::isinf\<close>\<close>
  d_sub :: "'d \<Rightarrow> 'd \<Rightarrow> 'd"
  d_mul :: "'d \<Rightarrow> 'd \<Rightarrow> 'd"
  d_div :: "'d \<Rightarrow> 'd \<Rightarrow> 'd"
  v_norm :: "'v \<Rightarrow> 'd"               \<comment> \<open>\<^verbatim>\<open>v.norm()\<close>\<close>
  v_dot :: "'v \<Rightarrow> 'v \<Rightarrow> 'd"          \<comment> \<open>\<^verbatim>\<open>u.dot(v)\<close>\<close>
  v_add :: "'v \<Rightarrow> 'v \<Rightarrow> 'v"
  v_sub :: "'v \<Rightarrow> 'v \<Rightarrow> 'v"
  v_scale :: "'d \<Rightarrow> 'v \<Rightarrow> 'v"         \<comment> \<open>\<^verbatim>\<open>a * v\<close>\<close>
  v_setZero :: "'v \<Rightarrow> 'v"             \<comment> \<open>\<^verbatim>\<open>v.setZero()\<close>: the zero vector of the size of \<open>v\<close>\<close>

text \<open>
  A linear operator as the solver sees it: \<^verbatim>\<open>RightMultiply(x, y)\<close> updates \<open>y\<close> (by
  contract to \<open>y + A x\<close>); the model returns the new \<open>y\<close>.
\<close>

record 'v LinearOperator =
  num_rows :: int
  num_cols :: int
  RightMultiply :: "'v \<Rightarrow> 'v \<Rightarrow> 'v"

record 'd ConjugateGradientsSolverOptions =
  min_num_iterations :: int
  max_num_iterations :: int
  residual_reset_period :: int
  r_tolerance :: 'd
  q_tolerance :: 'd

section \<open>ConjugateGradientsSolver\<close>

text \<open>
  The function template \<^verbatim>\<open>ConjugateGradientsSolver\<close> of conjugate_gradients_solver.h; the
  line numbers below are those of that file.

  The variables of the solver that live across loop iterations. \<open>st_p\<close>, \<open>st_r\<close>,
  \<open>st_z\<close>, \<open>st_tmp\<close> are the four scratch vectors (\<open>q\<close> is an alias of \<open>z\<close> in the
  source), \<open>st_summary\<close> is the summary under construction, whose \<open>num_iterations\<close> is the
  loop counter.
\<close>

record ('d, 'v) cg_state =
  st_solution :: 'v
  st_p :: 'v
  st_r :: 'v
  st_z :: 'v
  st_tmp :: 'v
  st_rho :: 'd
  st_Q0 :: 'd
  st_summary :: "'d Summary"

text \<open>
  What can stop the function other than a \<^verbatim>\<open>return\<close>: the failed \<^verbatim>\<open>CHECK_EQ\<close> on the
  operator's dimensions, and the integer remainder by a zero \<^verbatim>\<open>residual_reset_period\<close>.
\<close>

datatype cg_error = CheckFailed | DivisionByZero

datatype 's outcome = Continue 's | Break 's | Abort cg_error

definition IsZeroOrInfinity :: "('d, 'v) dense_ops \<Rightarrow> 'd \<Rightarrow> bool" where
  "IsZeroOrInfinity N x = (d_eq N x (d_of_int N 0) \<or> d_isinf N x)"

definition st_iter :: "('d, 'v) cg_state \<Rightarrow> int" where
  "st_iter st = num_iterations (st_summary st)"

definition terminate ::
  "LinearSolverTerminationType \<Rightarrow> 'd message \<Rightarrow> ('d, 'v) cg_state \<Rightarrow> ('d, 'v) cg_state" where
  "terminate t m st = st\<lparr>st_summary := (st_summary st)\<lparr>termination_type := t, message := m\<rparr>\<rparr>"

text \<open>Lines 140-166: the preconditioned residual, \<open>rho\<close> and the search direction.\<close>

definition cg_direction ::
  "('d, 'v) dense_ops \<Rightarrow> 'v LinearOperator \<Rightarrow> ('d, 'v) cg_state \<Rightarrow> ('d, 'v) cg_state outcome" where
  "cg_direction N preconditioner st =
    (let z1 = RightMultiply preconditioner (st_r st) (v_setZero N (st_z st));
         last_rho = st_rho st;
         rho1 = v_dot N (st_r st) z1;
         st1 = st\<lparr>st_z := z1, st_rho := rho1\<rparr>
     in if IsZeroOrInfinity N rho1 then
          Break (terminate FAILURE
                   (StringPrintf ''Numerical failure. rho = r'z = %e.'' [DoubleArg rho1]) st1)
        else if st_iter st = 1 then Continue (st1\<lparr>st_p := z1\<rparr>)
        else
          (let beta = d_div N rho1 last_rho
           in if IsZeroOrInfinity N beta then
                Break (terminate FAILURE
                         (StringPrintf
                            (''Numerical failure. beta = rho_n / rho_{n-1} = %e, '' @
                             ''rho_n = %e, rho_{n-1} = %e'')
                            [DoubleArg beta, DoubleArg rho1, DoubleArg last_rho]) st1)
              else Continue (st1\<lparr>st_p := v_add N z1 (v_scale N beta (st_p st))\<rparr>)))"

text \<open>
  Lines 168-209: \<open>q = A p\<close>, the step length, the new iterate and the new residual. The
  source's \<^verbatim>\<open>%\<close> truncates towards zero (\<open>smod\<close>); its divisor must not be zero.
\<close>

definition cg_update ::
  "('d, 'v) dense_ops \<Rightarrow> 'd ConjugateGradientsSolverOptions \<Rightarrow> 'v LinearOperator \<Rightarrow> 'v \<Rightarrow>
   ('d, 'v) cg_state \<Rightarrow> ('d, 'v) cg_state outcome" where
  "cg_update N options lhs rhs st =
    (let q = RightMultiply lhs (st_p st) (v_setZero N (st_z st));
         pq = v_dot N (st_p st) q;
         st1 = st\<lparr>st_z := q\<rparr>
     in if d_le N pq (d_of_int N 0) \<or> d_isinf N pq then
          Break (terminate NO_CONVERGENCE
                   (StringPrintf
                      (''Matrix is indefinite, no more progress can be made. '' @
                       ''p'q = %e. |p| = %e, |q| = %e'')
                      [DoubleArg pq, DoubleArg (v_norm N (st_p st)), DoubleArg (v_norm N q)]) st1)
        else
          (let alpha = d_div N (st_rho st) pq
           in if d_isinf N alpha then
                Break (terminate FAILURE
                         (StringPrintf
                            ''Numerical failure. alpha = rho / pq = %e, rho = %e, pq = %e.''
                            [DoubleArg alpha, DoubleArg (st_rho st), DoubleArg pq]) st1)
              else
                (let x1 = v_add N (st_solution st) (v_scale N alpha (st_p st));
                     st2 = st1\<lparr>st_solution := x1\<rparr>
                 in if residual_reset_period options = 0 then Abort DivisionByZero
                    else if st_iter st smod residual_reset_period options = 0 then
                      (let tmp1 = RightMultiply lhs x1 (v_setZero N (st_tmp st))
                       in Continue (st2\<lparr>st_tmp := tmp1, st_r := v_sub N rhs tmp1\<rparr>))
                    else Continue (st2\<lparr>st_r := v_sub N (st_r st) (v_scale N alpha q)\<rparr>))))"

text \<open>
  Lines 211-266: the value \<open>Q1\<close> of the quadratic model, the two termination tests and the
  iteration limit. \<open>cg_Q\<close> is the source's \<^verbatim>\<open>-1.0 * solution.dot(rhs + r)\<close> and \<open>cg_zeta\<close>
  its \<^verbatim>\<open>summary.num_iterations * (Q1 - Q0) / Q1\<close>.
\<close>

definition cg_Q :: "('d, 'v) dense_ops \<Rightarrow> 'v \<Rightarrow> 'v \<Rightarrow> 'v \<Rightarrow> 'd" where
  "cg_Q N rhs x r = d_mul N (d_of_int N (- 1)) (v_dot N x (v_add N rhs r))"

definition cg_zeta :: "('d, 'v) dense_ops \<Rightarrow> 'v \<Rightarrow> ('d, 'v) cg_state \<Rightarrow> 'd" where
  "cg_zeta N rhs st =
    (let Q1 = cg_Q N rhs (st_solution st) (st_r st)
     in d_div N (d_mul N (d_of_int N (st_iter st)) (d_sub N Q1 (st_Q0 st))) Q1)"

definition cg_tests ::
  "('d, 'v) dense_ops \<Rightarrow> 'd ConjugateGradientsSolverOptions \<Rightarrow> 'v \<Rightarrow> 'd \<Rightarrow>
   ('d, 'v) cg_state \<Rightarrow> ('d, 'v) cg_state outcome" where
  "cg_tests N options rhs tol_r st =
    (let Q1 = cg_Q N rhs (st_solution st) (st_r st);
         zeta = cg_zeta N rhs st
     in if d_lt N zeta (q_tolerance options) \<and> min_num_iterations options \<le> st_iter st then
          Break (terminate SUCCESS
                   (StringPrintf ''Iteration: %d Convergence: zeta = %e < %e. |r| = %e''
                      [IntArg (st_iter st), DoubleArg zeta, DoubleArg (q_tolerance options),
                       DoubleArg (v_norm N (st_r st))]) st)
        else
          (let st1 = st\<lparr>st_Q0 := Q1\<rparr>;
               norm_r = v_norm N (st_r st)
           in if d_le N norm_r tol_r \<and> min_num_iterations options \<le> st_iter st then
                Break (terminate SUCCESS
                         (StringPrintf ''Iteration: %d Convergence. |r| = %e <= %e.''
                            [IntArg (st_iter st), DoubleArg norm_r, DoubleArg tol_r]) st1)
              else if max_num_iterations options \<le> st_iter st then Break st1
              else Continue st1))"

text \<open>One pass through the body of the \<^verbatim>\<open>for\<close> loop.\<close>

definition cg_iteration ::
  "('d, 'v) dense_ops \<Rightarrow> 'd ConjugateGradientsSolverOptions \<Rightarrow> 'v LinearOperator \<Rightarrow> 'v \<Rightarrow>
   'v LinearOperator \<Rightarrow> 'd \<Rightarrow> ('d, 'v) cg_state \<Rightarrow> ('d, 'v) cg_state outcome" where
  "cg_iteration N options lhs rhs preconditioner tol_r st =
    (case cg_direction N preconditioner st of
       Continue st1 \<Rightarrow>
         (case cg_update N options lhs rhs st1 of
            Continue st2 \<Rightarrow> cg_tests N options rhs tol_r st2
          | Break st2 \<Rightarrow> Break st2
          | Abort e \<Rightarrow> Abort e)
     | Break st1 \<Rightarrow> Break st1
     | Abort e \<Rightarrow> Abort e)"

text \<open>\<^verbatim>\<open>++summary.num_iterations\<close>\<close>

definition next_iteration :: "('d, 'v) cg_state \<Rightarrow> ('d, 'v) cg_state" where
  "next_iteration st =
     st\<lparr>st_summary := (st_summary st)\<lparr>num_iterations := num_iterations (st_summary st) + 1\<rparr>\<rparr>"

lemma cg_direction_iter:
  "cg_direction N preconditioner st = Continue st1 \<Longrightarrow> st_iter st1 = st_iter st"
  by (auto simp: cg_direction_def Let_def st_iter_def split: if_splits)

lemma cg_update_iter:
  "cg_update N options lhs rhs st = Continue st1 \<Longrightarrow> st_iter st1 = st_iter st"
  by (auto simp: cg_update_def Let_def st_iter_def split: if_splits)

lemma cg_tests_iter:
  "cg_tests N options rhs tol_r st = Continue st1 \<Longrightarrow>
     st_iter st1 = st_iter st \<and> st_iter st < max_num_iterations options"
  by (auto simp: cg_tests_def Let_def st_iter_def split: if_splits)

lemma cg_iteration_iter:
  assumes "cg_iteration N options lhs rhs preconditioner tol_r st = Continue st'"
  shows "st_iter st' = st_iter st \<and> st_iter st < max_num_iterations options"
proof -
  from assms obtain st1 st2 where
    d: "cg_direction N preconditioner st = Continue st1" and
    u: "cg_update N options lhs rhs st1 = Continue st2" and
    t: "cg_tests N options rhs tol_r st2 = Continue st'"
    by (auto simp: cg_iteration_def split: outcome.splits)
  from cg_direction_iter[OF d] cg_update_iter[OF u] cg_tests_iter[OF t]
  show ?thesis by simp
qed

text \<open>
  The loop \<^verbatim>\<open>for (summary.num_iterations = 1;; ++summary.num_iterations)\<close>. It is left
  only through \<^verbatim>\<open>break\<close>; the distance to \<^verbatim>\<open>max_num_iterations\<close> shrinks with every
  pass that continues. The counter never exceeds \<open>max 1 max_num_iterations\<close>, so the
  32-bit \<^verbatim>\<open>int\<close> of the source does not overflow and is modelled by \<open>int\<close>.
\<close>

function cg_loop ::
  "('d, 'v) dense_ops \<Rightarrow> 'd ConjugateGradientsSolverOptions \<Rightarrow> 'v LinearOperator \<Rightarrow> 'v \<Rightarrow>
   'v LinearOperator \<Rightarrow> 'd \<Rightarrow> ('d, 'v) cg_state \<Rightarrow> cg_error + ('d Summary \<times> 'v)" where
  "cg_loop N options lhs rhs preconditioner tol_r st =
    (case cg_iteration N options lhs rhs preconditioner tol_r st of
       Continue st' \<Rightarrow> cg_loop N options lhs rhs preconditioner tol_r (next_iteration st')
     | Break st' \<Rightarrow> Inr (st_summary st', st_solution st')
     | Abort e \<Rightarrow> Inl e)"
  by pat_completeness auto
termination
proof (relation "measure (\<lambda>(N, options, lhs, rhs, preconditioner, tol_r, st).
                    nat (max_num_iterations options - st_iter st))")
  show "wf (measure (\<lambda>(N, options, lhs, rhs, preconditioner, tol_r, st).
               nat (max_num_iterations options - st_iter st)))"
    by simp
next
  fix N :: "('d, 'v) dense_ops" and options :: "'d ConjugateGradientsSolverOptions"
    and lhs :: "'v LinearOperator" and rhs :: 'v and preconditioner :: "'v LinearOperator"
    and tol_r :: 'd and st st' :: "('d, 'v) cg_state"
  assume "cg_iteration N options lhs rhs preconditioner tol_r st = Continue st'"
  from cg_iteration_iter[OF this]
  show "((N, options, lhs, rhs, preconditioner, tol_r, next_iteration st'),
         (N, options, lhs, rhs, preconditioner, tol_r, st))
        \<in> measure (\<lambda>(N, options, lhs, rhs, preconditioner, tol_r, st).
               nat (max_num_iterations options - st_iter st))"
    by (simp add: next_iteration_def st_iter_def)
qed

declare cg_loop.simps [simp del]

text \<open>
  Lines 95-137, up to the loop: the \<^verbatim>\<open>CHECK_EQ\<close>, the zero right-hand side, the initial
  residual and the test of the initial iterate. The result is an early \<^verbatim>\<open>return\<close>
  (\<open>Inr (Inl _)\<close>) or the state in which the loop is entered (\<open>Inr (Inr _)\<close>).
\<close>

definition cg_tol_r :: "('d, 'v) dense_ops \<Rightarrow> 'd ConjugateGradientsSolverOptions \<Rightarrow> 'v \<Rightarrow> 'd" where
  "cg_tol_r N options rhs = d_mul N (r_tolerance options) (v_norm N rhs)"

definition cg_prelude ::
  "('d, 'v) dense_ops \<Rightarrow> 'd ConjugateGradientsSolverOptions \<Rightarrow> 'v LinearOperator \<Rightarrow> 'v \<Rightarrow>
   'v \<times> 'v \<times> 'v \<times> 'v \<Rightarrow> 'v \<Rightarrow> cg_error + (('d Summary \<times> 'v) + ('d, 'v) cg_state)" where
  "cg_prelude N options lhs rhs scratch solution =
    (if num_rows lhs \<noteq> num_cols lhs then Inl CheckFailed
     else
      (case scratch of (p, r, z, tmp) \<Rightarrow>
        (let summary = \<lparr>termination_type = NO_CONVERGENCE,
                        message = Literal ''Maximum number of iterations reached.'',
                        num_iterations = 0\<rparr>;
             norm_b = v_norm N rhs
         in if d_eq N norm_b (d_of_int N 0) then
              Inr (Inl (summary\<lparr>termination_type := SUCCESS,
                                message := Literal ''Convergence. |b| = 0.''\<rparr>,
                        v_setZero N solution))
            else
              (let tol_r = cg_tol_r N options rhs;
                   tmp1 = RightMultiply lhs solution (v_setZero N tmp);
                   r1 = v_sub N rhs tmp1;
                   norm_r = v_norm N r1
               in if min_num_iterations options = 0 \<and> d_le N norm_r tol_r then
                    Inr (Inl (summary\<lparr>termination_type := SUCCESS,
                                      message := StringPrintf ''Convergence. |r| = %e <= %e.''
                                                   [DoubleArg norm_r, DoubleArg tol_r]\<rparr>,
                              solution))
                  else
                    Inr (Inr \<lparr>st_solution = solution, st_p = p, st_r = r1, st_z = z,
                              st_tmp = tmp1, st_rho = d_of_int N 1,
                              st_Q0 = cg_Q N rhs solution r1,
                              st_summary = summary\<lparr>num_iterations := 1\<rparr>\<rparr>)))))"

definition ConjugateGradientsSolver ::
  "('d, 'v) dense_ops \<Rightarrow> 'd ConjugateGradientsSolverOptions \<Rightarrow> 'v LinearOperator \<Rightarrow> 'v \<Rightarrow>
   'v LinearOperator \<Rightarrow> 'v \<times> 'v \<times> 'v \<times> 'v \<Rightarrow> 'v \<Rightarrow> cg_error + ('d Summary \<times> 'v)" where
  "ConjugateGradientsSolver N options lhs rhs preconditioner scratch solution =
    (case cg_prelude N options lhs rhs scratch solution of
       Inl e \<Rightarrow> Inl e
     | Inr (Inl result) \<Rightarrow> Inr result
     | Inr (Inr st) \<Rightarrow>
         cg_loop N options lhs rhs preconditioner (cg_tol_r N options rhs) st)"

text \<open>
  \<open>cg_state_at \<dots> k\<close> is the state in which the run starts its iteration \<open>k + 1\<close>, when
  it gets that far.
\<close>

fun cg_reach ::
  "('d, 'v) dense_ops \<Rightarrow> 'd ConjugateGradientsSolverOptions \<Rightarrow> 'v LinearOperator \<Rightarrow> 'v \<Rightarrow>
   'v LinearOperator \<Rightarrow> 'd \<Rightarrow> ('d, 'v) cg_state \<Rightarrow> nat \<Rightarrow> ('d, 'v) cg_state option" where
  "cg_reach N options lhs rhs preconditioner tol_r st 0 = Some st"
| "cg_reach N options lhs rhs preconditioner tol_r st (Suc k) =
    (case cg_iteration N options lhs rhs preconditioner tol_r st of
       Continue st' \<Rightarrow> cg_reach N options lhs rhs preconditioner tol_r (next_iteration st') k
     | Break st' \<Rightarrow> None
     | Abort e \<Rightarrow> None)"

definition cg_state_at ::
  "('d, 'v) dense_ops \<Rightarrow> 'd ConjugateGradientsSolverOptions \<Rightarrow> 'v LinearOperator \<Rightarrow> 'v \<Rightarrow>
   'v LinearOperator \<Rightarrow> 'v \<times> 'v \<times> 'v \<times> 'v \<Rightarrow> 'v \<Rightarrow> nat \<Rightarrow> ('d, 'v) cg_state option" where
  "cg_state_at N options lhs rhs preconditioner scratch solution k =
    (case cg_prelude N options lhs rhs scratch solution of
       Inr (Inr st) \<Rightarrow>
         cg_reach N options lhs rhs preconditioner (cg_tol_r N options rhs) st k
     | _ \<Rightarrow> None)"


text \<open>The quantities an iteration tests, as the source computes them.\<close>

definition cg_rho :: "('d, 'v) dense_ops \<Rightarrow> 'v LinearOperator \<Rightarrow> ('d, 'v) cg_state \<Rightarrow> 'd" where
  "cg_rho N preconditioner st =
     v_dot N (st_r st) (RightMultiply preconditioner (st_r st) (v_setZero N (st_z st)))"

definition cg_beta :: "('d, 'v) dense_ops \<Rightarrow> 'v LinearOperator \<Rightarrow> ('d, 'v) cg_state \<Rightarrow> 'd" where
  "cg_beta N preconditioner st = d_div N (cg_rho N preconditioner st) (st_rho st)"

definition cg_pq :: "('d, 'v) dense_ops \<Rightarrow> 'v LinearOperator \<Rightarrow> ('d, 'v) cg_state \<Rightarrow> 'd" where
  "cg_pq N lhs st =
     v_dot N (st_p st) (RightMultiply lhs (st_p st) (v_setZero N (st_z st)))"

text \<open>The solver returns a summary with the given termination type and iteration count.\<close>

definition returns ::
  "cg_error + ('d Summary \<times> 'v) \<Rightarrow> LinearSolverTerminationType \<Rightarrow> int \<Rightarrow> bool" where
  "returns res t n =
     (case res of Inl e \<Rightarrow> False
      | Inr (s, x) \<Rightarrow> termination_type s = t \<and> num_iterations s = n)"

section \<open>Properties of the solver\<close>

lemma cg_loop_Break:
  "cg_iteration N options lhs rhs preconditioner tol_r st = Break st' \<Longrightarrow>
   cg_loop N options lhs rhs preconditioner tol_r st = Inr (st_summary st', st_solution st')"
  by (simp add: cg_loop.simps)

lemma cg_loop_reach:
  "cg_reach N options lhs rhs preconditioner tol_r st k = Some st' \<Longrightarrow>
   cg_loop N options lhs rhs preconditioner tol_r st =
   cg_loop N options lhs rhs preconditioner tol_r st'"
proof (induction k arbitrary: st)
  case 0
  then show ?case by simp
next
  case (Suc k)
  then obtain st1 where
    it: "cg_iteration N options lhs rhs preconditioner tol_r st = Continue st1" and
    re: "cg_reach N options lhs rhs preconditioner tol_r (next_iteration st1) k = Some st'"
    by (auto split: outcome.splits)
  have "cg_loop N options lhs rhs preconditioner tol_r st =
        cg_loop N options lhs rhs preconditioner tol_r (next_iteration st1)"
    using it by (simp add: cg_loop.simps)
  with Suc.IH[OF re] show ?case by simp
qed

lemma next_iteration_iter: "st_iter (next_iteration st) = st_iter st + 1"
  by (simp add: next_iteration_def st_iter_def)

lemma cg_reach_iter:
  "cg_reach N options lhs rhs preconditioner tol_r st k = Some st' \<Longrightarrow>
   st_iter st' = st_iter st + int k"
proof (induction k arbitrary: st)
  case 0
  then show ?case by simp
next
  case (Suc k)
  then obtain st1 where
    it: "cg_iteration N options lhs rhs preconditioner tol_r st = Continue st1" and
    re: "cg_reach N options lhs rhs preconditioner tol_r (next_iteration st1) k = Some st'"
    by (auto split: outcome.splits)
  from cg_iteration_iter[OF it] Suc.IH[OF re] show ?case
    by (simp add: next_iteration_iter)
qed

lemma cg_prelude_iter:
  "cg_prelude N options lhs rhs scratch solution = Inr (Inr st) \<Longrightarrow> st_iter st = 1"
  by (auto simp: cg_prelude_def Let_def st_iter_def split: if_splits prod.splits)

lemma cg_state_at_run:
  assumes "cg_state_at N options lhs rhs preconditioner scratch solution k = Some st"
  shows "ConjugateGradientsSolver N options lhs rhs preconditioner scratch solution =
           cg_loop N options lhs rhs preconditioner (cg_tol_r N options rhs) st"
    and "st_iter st = int k + 1"
proof -
  from assms obtain st0 where
    p: "cg_prelude N options lhs rhs scratch solution = Inr (Inr st0)" and
    r: "cg_reach N options lhs rhs preconditioner (cg_tol_r N options rhs) st0 k = Some st"
    by (auto simp: cg_state_at_def split: sum.splits)
  show "ConjugateGradientsSolver N options lhs rhs preconditioner scratch solution =
           cg_loop N options lhs rhs preconditioner (cg_tol_r N options rhs) st"
    using p cg_loop_reach[OF r] by (simp add: ConjugateGradientsSolver_def)
  show "st_iter st = int k + 1"
    using cg_prelude_iter[OF p] cg_reach_iter[OF r] by simp
qed

lemma cg_direction_rho:
  "IsZeroOrInfinity N (cg_rho N preconditioner st) \<Longrightarrow>
   \<exists>st'. cg_direction N preconditioner st = Break st' \<and>
         termination_type (st_summary st') = FAILURE \<and> st_iter st' = st_iter st \<and>
         st_solution st' = st_solution st"
  by (simp add: cg_direction_def cg_rho_def Let_def terminate_def st_iter_def)

lemma cg_direction_beta:
  "\<not> IsZeroOrInfinity N (cg_rho N preconditioner st) \<Longrightarrow> st_iter st \<noteq> 1 \<Longrightarrow>
   IsZeroOrInfinity N (cg_beta N preconditioner st) \<Longrightarrow>
   \<exists>st'. cg_direction N preconditioner st = Break st' \<and>
         termination_type (st_summary st') = FAILURE \<and> st_iter st' = st_iter st \<and>
         st_solution st' = st_solution st"
  by (simp add: cg_direction_def cg_rho_def cg_beta_def Let_def terminate_def st_iter_def)

lemma cg_update_pq:
  "d_le N (cg_pq N lhs st) (d_of_int N 0) \<or> d_isinf N (cg_pq N lhs st) \<Longrightarrow>
   \<exists>st'. cg_update N options lhs rhs st = Break st' \<and>
         termination_type (st_summary st') = NO_CONVERGENCE \<and> st_iter st' = st_iter st \<and>
         st_solution st' = st_solution st"
  by (simp add: cg_update_def cg_pq_def Let_def terminate_def st_iter_def)

lemma cg_direction_solution:
  "cg_direction N preconditioner st = Continue st1 \<Longrightarrow> st_solution st1 = st_solution st"
  by (auto simp: cg_direction_def Let_def split: if_splits)

lemma cg_direction_summary:
  "cg_direction N preconditioner st = Continue st1 \<Longrightarrow> st_summary st1 = st_summary st"
  by (auto simp: cg_direction_def Let_def split: if_splits)

lemma cg_update_summary:
  "cg_update N options lhs rhs st = Continue st1 \<Longrightarrow> st_summary st1 = st_summary st"
  by (auto simp: cg_update_def Let_def split: if_splits)

text \<open>Until a \<^verbatim>\<open>break\<close> sets it, the summary holds its initial termination type.\<close>

lemma cg_iteration_summary:
  assumes "cg_iteration N options lhs rhs preconditioner tol_r st = Continue st'"
  shows "st_summary st' = st_summary st"
proof -
  from assms obtain st1 st2 where
    d: "cg_direction N preconditioner st = Continue st1" and
    u: "cg_update N options lhs rhs st1 = Continue st2" and
    t: "cg_tests N options rhs tol_r st2 = Continue st'"
    by (auto simp: cg_iteration_def split: outcome.splits)
  from t have "st_summary st' = st_summary st2"
    by (auto simp: cg_tests_def Let_def split: if_splits)
  with cg_direction_summary[OF d] cg_update_summary[OF u] show ?thesis by simp
qed

lemma cg_reach_type:
  "cg_reach N options lhs rhs preconditioner tol_r st k = Some st' \<Longrightarrow>
   termination_type (st_summary st') = termination_type (st_summary st)"
proof (induction k arbitrary: st)
  case 0
  then show ?case by simp
next
  case (Suc k)
  then obtain st1 where
    it: "cg_iteration N options lhs rhs preconditioner tol_r st = Continue st1" and
    re: "cg_reach N options lhs rhs preconditioner tol_r (next_iteration st1) k = Some st'"
    by (auto split: outcome.splits)
  from cg_iteration_summary[OF it] Suc.IH[OF re] show ?case
    by (simp add: next_iteration_def)
qed

lemma cg_state_at_type:
  assumes "cg_state_at N options lhs rhs preconditioner scratch solution k = Some st"
  shows "termination_type (st_summary st) = NO_CONVERGENCE"
proof -
  from assms obtain st0 where
    p: "cg_prelude N options lhs rhs scratch solution = Inr (Inr st0)" and
    r: "cg_reach N options lhs rhs preconditioner (cg_tol_r N options rhs) st0 k = Some st"
    by (auto simp: cg_state_at_def split: sum.splits)
  from p have "termination_type (st_summary st0) = NO_CONVERGENCE"
    by (auto simp: cg_prelude_def Let_def split: if_splits prod.splits)
  with cg_reach_type[OF r] show ?thesis by simp
qed


text \<open>
  The loop counter stays within \<open>max 1 max_num_iterations\<close>, and a run on a nonzero
  right-hand side that reports \<open>SUCCESS\<close> has made at least \<open>min_num_iterations\<close>
  iterations.
\<close>

lemma cg_direction_Break_iter:
  "cg_direction N preconditioner st = Break st1 \<Longrightarrow> st_iter st1 = st_iter st"
  by (auto simp: cg_direction_def Let_def terminate_def st_iter_def split: if_splits)

lemma cg_update_Break_iter:
  "cg_update N options lhs rhs st = Break st1 \<Longrightarrow> st_iter st1 = st_iter st"
  by (auto simp: cg_update_def Let_def terminate_def st_iter_def split: if_splits)

lemma cg_tests_Break_iter:
  "cg_tests N options rhs tol_r st = Break st1 \<Longrightarrow> st_iter st1 = st_iter st"
  by (auto simp: cg_tests_def Let_def terminate_def st_iter_def split: if_splits)

lemma cg_iteration_Break_iter:
  assumes "cg_iteration N options lhs rhs preconditioner tol_r st = Break st'"
  shows "st_iter st' = st_iter st"
proof (cases "cg_direction N preconditioner st")
  case (Continue st1)
  note d = this
  show ?thesis
  proof (cases "cg_update N options lhs rhs st1")
    case (Continue st2)
    with d assms have "cg_tests N options rhs tol_r st2 = Break st'"
      by (simp add: cg_iteration_def)
    from cg_tests_Break_iter[OF this] cg_update_iter[OF Continue] cg_direction_iter[OF d]
    show ?thesis by simp
  next
    case (Break st2)
    with d assms have "st2 = st'" by (simp add: cg_iteration_def)
    with cg_update_Break_iter[OF Break] cg_direction_iter[OF d] show ?thesis by simp
  next
    case (Abort e)
    with d assms show ?thesis by (simp add: cg_iteration_def)
  qed
next
  case (Break st1)
  with assms have "st1 = st'" by (simp add: cg_iteration_def)
  with cg_direction_Break_iter[OF Break] show ?thesis by simp
next
  case (Abort e)
  with assms show ?thesis by (simp add: cg_iteration_def)
qed

lemma cg_loop_bound:
  "cg_loop N options lhs rhs preconditioner tol_r st = Inr (s, x) \<Longrightarrow>
   st_iter st \<le> num_iterations s \<and>
   num_iterations s \<le> max (st_iter st) (max_num_iterations options)"
proof (induction N options lhs rhs preconditioner tol_r st rule: cg_loop.induct)
  case (1 N options lhs rhs preconditioner tol_r st)
  show ?case
  proof (cases "cg_iteration N options lhs rhs preconditioner tol_r st")
    case (Continue st')
    with "1.prems" have
      "cg_loop N options lhs rhs preconditioner tol_r (next_iteration st') = Inr (s, x)"
      by (simp add: cg_loop.simps)
    from "1.IH"[OF Continue this] cg_iteration_iter[OF Continue] show ?thesis
      by (simp add: next_iteration_iter)
  next
    case (Break st')
    then have "st_iter st' = st_iter st"
      by (rule cg_iteration_Break_iter)
    with Break "1.prems" show ?thesis
      by (auto simp: cg_loop.simps st_iter_def)
  next
    case (Abort e)
    with "1.prems" show ?thesis by (simp add: cg_loop.simps)
  qed
qed


lemma cg_solver_bound:
  assumes "ConjugateGradientsSolver N options lhs rhs preconditioner scratch solution = Inr (s, x)"
  shows "0 \<le> num_iterations s \<and> num_iterations s \<le> max 1 (max_num_iterations options)"
proof (cases "cg_prelude N options lhs rhs scratch solution")
  case (Inl e)
  with assms show ?thesis by (simp add: ConjugateGradientsSolver_def)
next
  case (Inr res)
  show ?thesis
  proof (cases res)
    case (Inl early)
    with Inr assms have "early = (s, x)" by (simp add: ConjugateGradientsSolver_def)
    with Inr Inl have "num_iterations s = 0"
      by (auto simp: cg_prelude_def Let_def split: if_splits prod.splits)
    then show ?thesis by simp
  next
    case (Inr st)
    with \<open>cg_prelude N options lhs rhs scratch solution = Inr res\<close> assms
    have l: "cg_loop N options lhs rhs preconditioner (cg_tol_r N options rhs) st = Inr (s, x)"
      and p: "cg_prelude N options lhs rhs scratch solution = Inr (Inr st)"
      by (simp_all add: ConjugateGradientsSolver_def)
    from cg_loop_bound[OF l] cg_prelude_iter[OF p] show ?thesis by simp
  qed
qed

lemma cg_iteration_Break_success:
  assumes "cg_iteration N options lhs rhs preconditioner tol_r st = Break st'"
    and "termination_type (st_summary st) \<noteq> SUCCESS"
    and "termination_type (st_summary st') = SUCCESS"
  shows "min_num_iterations options \<le> st_iter st"
proof (cases "cg_direction N preconditioner st")
  case (Continue st1)
  note d = this
  show ?thesis
  proof (cases "cg_update N options lhs rhs st1")
    case (Continue st2)
    with d assms(1) have t: "cg_tests N options rhs tol_r st2 = Break st'"
      by (simp add: cg_iteration_def)
    have "st_summary st2 = st_summary st"
      using cg_direction_summary[OF d] cg_update_summary[OF Continue] by simp
    with t assms(2,3) have "min_num_iterations options \<le> st_iter st2"
      by (auto simp: cg_tests_def Let_def terminate_def split: if_splits)
    with cg_update_iter[OF Continue] cg_direction_iter[OF d] show ?thesis by simp
  next
    case (Break st2)
    with d assms(1) have "st2 = st'" by (simp add: cg_iteration_def)
    with Break assms(3) show ?thesis
      by (auto simp: cg_update_def Let_def terminate_def split: if_splits)
  next
    case (Abort e)
    with d assms(1) show ?thesis by (simp add: cg_iteration_def)
  qed
next
  case (Break st1)
  with assms(1) have "st1 = st'" by (simp add: cg_iteration_def)
  with Break assms(3) show ?thesis
    by (auto simp: cg_direction_def Let_def terminate_def split: if_splits)
next
  case (Abort e)
  with assms(1) show ?thesis by (simp add: cg_iteration_def)
qed

lemma cg_loop_success:
  "cg_loop N options lhs rhs preconditioner tol_r st = Inr (s, x) \<Longrightarrow>
   termination_type (st_summary st) \<noteq> SUCCESS \<Longrightarrow> termination_type s = SUCCESS \<Longrightarrow>
   min_num_iterations options \<le> num_iterations s"
proof (induction N options lhs rhs preconditioner tol_r st rule: cg_loop.induct)
  case (1 N options lhs rhs preconditioner tol_r st)
  show ?case
  proof (cases "cg_iteration N options lhs rhs preconditioner tol_r st")
    case (Continue st')
    with "1.prems"(1) have
      l: "cg_loop N options lhs rhs preconditioner tol_r (next_iteration st') = Inr (s, x)"
      by (simp add: cg_loop.simps)
    have "termination_type (st_summary (next_iteration st')) \<noteq> SUCCESS"
      using cg_iteration_summary[OF Continue] "1.prems"(2) by (simp add: next_iteration_def)
    from "1.IH"[OF Continue l this "1.prems"(3)] show ?thesis .
  next
    case (Break st')
    with "1.prems"(1) have s: "s = st_summary st'" by (simp add: cg_loop.simps)
    with "1.prems"(3) have "termination_type (st_summary st') = SUCCESS" by simp
    from cg_iteration_Break_success[OF Break "1.prems"(2) this]
      cg_iteration_Break_iter[OF Break] s
    show ?thesis by (simp add: st_iter_def)
  next
    case (Abort e)
    with "1.prems"(1) show ?thesis by (simp add: cg_loop.simps)
  qed
qed

lemma cg_solver_success:
  assumes "ConjugateGradientsSolver N options lhs rhs preconditioner scratch solution = Inr (s, x)"
    and "termination_type s = SUCCESS"
    and "\<not> d_eq N (v_norm N rhs) (d_of_int N 0)"
  shows "min_num_iterations options \<le> num_iterations s"
proof (cases "cg_prelude N options lhs rhs scratch solution")
  case (Inl e)
  with assms(1) show ?thesis by (simp add: ConjugateGradientsSolver_def)
next
  case (Inr res)
  show ?thesis
  proof (cases res)
    case (Inl early)
    with Inr assms(1) have "early = (s, x)" by (simp add: ConjugateGradientsSolver_def)
    with Inr Inl assms(3) show ?thesis
      by (auto simp: cg_prelude_def Let_def split: if_splits prod.splits)
  next
    case (Inr st)
    with \<open>cg_prelude N options lhs rhs scratch solution = Inr res\<close> assms(1)
    have l: "cg_loop N options lhs rhs preconditioner (cg_tol_r N options rhs) st = Inr (s, x)"
      and p: "cg_prelude N options lhs rhs scratch solution = Inr (Inr st)"
      by (simp_all add: ConjugateGradientsSolver_def)
    from p have "termination_type (st_summary st) \<noteq> SUCCESS"
      by (auto simp: cg_prelude_def Let_def split: if_splits prod.splits)
    from cg_loop_success[OF l this assms(2)] show ?thesis .
  qed
qed

section \<open>A concrete arithmetic\<close>

text \<open>
  An instance of the arithmetic on which the solver can be run by rewriting: vectors are
  lists of reals, the operations are exact, there are no infinities, and a quotient
  smaller than \<open>1/16\<close> in magnitude underflows to zero. \<open>diagonal a\<close> is the operator of
  the diagonal matrix with entries \<open>a\<close>.
\<close>

definition underflow :: "real \<Rightarrow> real" where
  "underflow x = (if \<bar>x\<bar> < 1 / 16 then 0 else x)"

definition real_ops :: "(real, real list) dense_ops" where
  "real_ops =
    \<lparr>d_of_int = real_of_int,
     d_eq = (=), d_le = (\<le>), d_lt = (<),
     d_isinf = (\<lambda>x. False),
     d_sub = (-), d_mul = (*),
     d_div = (\<lambda>x y. underflow (x / y)),
     v_norm = (\<lambda>v. sqrt (sum_list (map2 (*) v v))),
     v_dot = (\<lambda>u v. sum_list (map2 (*) u v)),
     v_add = map2 (+), v_sub = map2 (-),
     v_scale = (\<lambda>a. map ((*) a)),
     v_setZero = map (\<lambda>x. 0)\<rparr>"

definition diagonal :: "real list \<Rightarrow> real list LinearOperator" where
  "diagonal a =
    \<lparr>num_rows = int (length a), num_cols = int (length a),
     RightMultiply = (\<lambda>x y. map2 (+) y (map2 (*) a x))\<rparr>"

definition opts :: "int \<Rightarrow> int \<Rightarrow> real ConjugateGradientsSolverOptions" where
  "opts mn mx =
    \<lparr>min_num_iterations = mn, max_num_iterations = mx, residual_reset_period = 10,
     r_tolerance = 0, q_tolerance = 0\<rparr>"

definition zero2 :: "real list" where
  "zero2 = [0, 0]"

definition opts_q :: "real ConjugateGradientsSolverOptions" where
  "opts_q =
    \<lparr>min_num_iterations = 1, max_num_iterations = 10, residual_reset_period = 10,
     r_tolerance = 0, q_tolerance = 2\<rparr>"

lemmas cg_eval =
  cg_state_at_def cg_prelude_def cg_tol_r_def cg_Q_def cg_iteration_def cg_direction_def
  cg_update_def cg_tests_def cg_zeta_def IsZeroOrInfinity_def st_iter_def terminate_def
  next_iteration_def real_ops_def diagonal_def opts_def zero2_def underflow_def Let_def
  cg_rho_def cg_beta_def cg_pq_def signed_modulo_int_def

text \<open>
  In this arithmetic the source's \<^verbatim>\<open>-1.0 * solution.dot(rhs + r)\<close> is the quadratic model
  \<open>x'Ax - 2b'x\<close> whenever \<open>r = b - Ax\<close>.
\<close>

lemma cg_Q_exact:
  assumes "length x = length b" and "length Ax = length b"
  shows "cg_Q real_ops b x (v_sub real_ops b Ax) =
           v_dot real_ops x Ax - 2 * v_dot real_ops b x"
proof -
  have "sum_list (map2 (*) x (map2 (+) b (map2 (-) b Ax))) =
        2 * sum_list (map2 (*) b x) - sum_list (map2 (*) x Ax)"
    using assms(1) assms(2)[symmetric]
  proof (induction x b Ax rule: list_induct3)
    case Nil
    then show ?case by simp
  next
    case (Cons x xs b bs a as)
    then show ?case by (simp add: algebra_simps)
  qed
  then show ?thesis by (simp add: cg_Q_def real_ops_def)
qed

lemma at_Some: "x \<noteq> None \<Longrightarrow> x = Some (the x)"
  by simp

section \<open>Breakdowns of the iteration\<close>

text \<open>
  Claim C1. Let a run of \<open>ConjugateGradientsSolver\<close> (square operator, right-hand side of
  nonzero norm, initial iterate not accepted before the loop) start its iteration \<open>k + 1\<close>
  in state \<open>st\<close>. Then each of the following ends the run in that iteration:
  \<^item> \<open>rho = r'z\<close> is zero or infinite: the solver returns \<open>FAILURE\<close>;
  \<^item> \<open>rho\<close> is neither, the iteration is not the first and \<open>beta = rho / last_rho\<close> is
    zero or infinite: the solver returns \<open>FAILURE\<close>;
  \<^item> the direction was computed and \<open>p'q \<le> 0\<close> or \<open>p'q\<close> is infinite: the solver returns
    \<open>NO_CONVERGENCE\<close>;
  \<^item> the iteration ran to its end, neither termination test passed and the iteration
    count has reached \<open>max_num_iterations\<close>: the solver returns \<open>NO_CONVERGENCE\<close>.
  In each case the reported \<open>num_iterations\<close> is \<open>k + 1\<close>.
\<close>

theorem cg_breakdown_classification:
  assumes "cg_state_at N options lhs rhs preconditioner scratch solution k = Some st"
  shows
    "(IsZeroOrInfinity N (cg_rho N preconditioner st) \<longrightarrow>
        returns (ConjugateGradientsSolver N options lhs rhs preconditioner scratch solution)
          FAILURE (int k + 1)) \<and>
     (\<not> IsZeroOrInfinity N (cg_rho N preconditioner st) \<and> k \<noteq> 0 \<and>
      IsZeroOrInfinity N (cg_beta N preconditioner st) \<longrightarrow>
        returns (ConjugateGradientsSolver N options lhs rhs preconditioner scratch solution)
          FAILURE (int k + 1)) \<and>
     (\<forall>st1. cg_direction N preconditioner st = Continue st1 \<and>
        (d_le N (cg_pq N lhs st1) (d_of_int N 0) \<or> d_isinf N (cg_pq N lhs st1)) \<longrightarrow>
        returns (ConjugateGradientsSolver N options lhs rhs preconditioner scratch solution)
          NO_CONVERGENCE (int k + 1)) \<and>
     (\<forall>st1 st2. cg_direction N preconditioner st = Continue st1 \<and>
        cg_update N options lhs rhs st1 = Continue st2 \<and>
        \<not> (d_lt N (cg_zeta N rhs st2) (q_tolerance options) \<and>
           min_num_iterations options \<le> int k + 1) \<and>
        \<not> (d_le N (v_norm N (st_r st2)) (cg_tol_r N options rhs) \<and>
           min_num_iterations options \<le> int k + 1) \<and>
        max_num_iterations options \<le> int k + 1 \<longrightarrow>
        returns (ConjugateGradientsSolver N options lhs rhs preconditioner scratch solution)
          NO_CONVERGENCE (int k + 1))"
proof -
  let ?tol = "cg_tol_r N options rhs"
  let ?run = "ConjugateGradientsSolver N options lhs rhs preconditioner scratch solution"
  note run = cg_state_at_run(1)[OF assms]
  note iter = cg_state_at_run(2)[OF assms]
  note type = cg_state_at_type[OF assms]
  have brk: "returns ?run t (int k + 1)"
    if "cg_iteration N options lhs rhs preconditioner ?tol st = Break st'"
      and "termination_type (st_summary st') = t" and "st_iter st' = st_iter st" for st' t
    using that run iter cg_loop_Break[OF that(1)] by (simp add: returns_def st_iter_def)
  have rho: "returns ?run FAILURE (int k + 1)"
    if "IsZeroOrInfinity N (cg_rho N preconditioner st)"
  proof -
    from cg_direction_rho[OF that] obtain st' where
      "cg_direction N preconditioner st = Break st'"
      "termination_type (st_summary st') = FAILURE" "st_iter st' = st_iter st"
      by blast
    then show ?thesis by (intro brk[of st']) (simp_all add: cg_iteration_def)
  qed
  have beta: "returns ?run FAILURE (int k + 1)"
    if "\<not> IsZeroOrInfinity N (cg_rho N preconditioner st)" "k \<noteq> 0"
      "IsZeroOrInfinity N (cg_beta N preconditioner st)"
  proof -
    from that(2) iter have "st_iter st \<noteq> 1" by simp
    from cg_direction_beta[OF that(1) this that(3)] obtain st' where
      "cg_direction N preconditioner st = Break st'"
      "termination_type (st_summary st') = FAILURE" "st_iter st' = st_iter st"
      by blast
    then show ?thesis by (intro brk[of st']) (simp_all add: cg_iteration_def)
  qed
  have pq: "returns ?run NO_CONVERGENCE (int k + 1)"
    if d: "cg_direction N preconditioner st = Continue st1"
      and "d_le N (cg_pq N lhs st1) (d_of_int N 0) \<or> d_isinf N (cg_pq N lhs st1)" for st1
  proof -
    from cg_update_pq[OF that(2), of options rhs] obtain st' where
      "cg_update N options lhs rhs st1 = Break st'"
      "termination_type (st_summary st') = NO_CONVERGENCE" "st_iter st' = st_iter st1"
      by blast
    with d cg_direction_iter[OF d] show ?thesis
      by (intro brk[of st']) (simp_all add: cg_iteration_def)
  qed
  have mx: "returns ?run NO_CONVERGENCE (int k + 1)"
    if d: "cg_direction N preconditioner st = Continue st1"
      and u: "cg_update N options lhs rhs st1 = Continue st2"
      and t1: "\<not> (d_lt N (cg_zeta N rhs st2) (q_tolerance options) \<and>
                 min_num_iterations options \<le> int k + 1)"
      and t2: "\<not> (d_le N (v_norm N (st_r st2)) ?tol \<and>
                 min_num_iterations options \<le> int k + 1)"
      and m: "max_num_iterations options \<le> int k + 1" for st1 st2
  proof -
    have i2: "st_iter st2 = int k + 1"
      using cg_direction_iter[OF d] cg_update_iter[OF u] iter by simp
    have s2: "st_summary st2 = st_summary st"
      using cg_direction_summary[OF d] cg_update_summary[OF u] by simp
    let ?st' = "st2\<lparr>st_Q0 := cg_Q N rhs (st_solution st2) (st_r st2)\<rparr>"
    have "cg_tests N options rhs ?tol st2 = Break ?st'"
      using t1 t2 m i2 by (auto simp: cg_tests_def Let_def)
    with d u have "cg_iteration N options lhs rhs preconditioner ?tol st = Break ?st'"
      by (simp add: cg_iteration_def)
    then show ?thesis
      using s2 type i2 iter by (intro brk[of ?st']) (simp_all add: st_iter_def)
  qed
  from rho beta pq mx show ?thesis by blast
qed



theorem cg_breakdown_classification_witness:
  "(cg_state_at real_ops (opts 2 10) (diagonal [1, 1]) [3, 4] (diagonal [1, 1])
       (zero2, zero2, zero2, zero2) zero2 1 \<noteq> None \<and>
    IsZeroOrInfinity real_ops (cg_rho real_ops (diagonal [1, 1])
       (the (cg_state_at real_ops (opts 2 10) (diagonal [1, 1]) [3, 4] (diagonal [1, 1])
          (zero2, zero2, zero2, zero2) zero2 1))) \<and>
    returns (ConjugateGradientsSolver real_ops (opts 2 10) (diagonal [1, 1]) [3, 4]
       (diagonal [1, 1]) (zero2, zero2, zero2, zero2) zero2) FAILURE 2) \<and>
   (cg_state_at real_ops (opts 3 10) (diagonal [1, 2]) [4, 1] (diagonal [1, 1])
       (zero2, zero2, zero2, zero2) zero2 1 \<noteq> None \<and>
    \<not> IsZeroOrInfinity real_ops (cg_rho real_ops (diagonal [1, 1])
       (the (cg_state_at real_ops (opts 3 10) (diagonal [1, 2]) [4, 1] (diagonal [1, 1])
          (zero2, zero2, zero2, zero2) zero2 1))) \<and>
    IsZeroOrInfinity real_ops (cg_beta real_ops (diagonal [1, 1])
       (the (cg_state_at real_ops (opts 3 10) (diagonal [1, 2]) [4, 1] (diagonal [1, 1])
          (zero2, zero2, zero2, zero2) zero2 1))) \<and>
    returns (ConjugateGradientsSolver real_ops (opts 3 10) (diagonal [1, 2]) [4, 1]
       (diagonal [1, 1]) (zero2, zero2, zero2, zero2) zero2) FAILURE 2) \<and>
   (cg_state_at real_ops (opts 0 10) (diagonal [1, - 1]) [0, 1] (diagonal [1, 1])
       (zero2, zero2, zero2, zero2) zero2 0 \<noteq> None \<and>
    (\<exists>st1. cg_direction real_ops (diagonal [1, 1])
       (the (cg_state_at real_ops (opts 0 10) (diagonal [1, - 1]) [0, 1] (diagonal [1, 1])
          (zero2, zero2, zero2, zero2) zero2 0)) = Continue st1 \<and>
       d_le real_ops (cg_pq real_ops (diagonal [1, - 1]) st1) (d_of_int real_ops 0)) \<and>
    returns (ConjugateGradientsSolver real_ops (opts 0 10) (diagonal [1, - 1]) [0, 1]
       (diagonal [1, 1]) (zero2, zero2, zero2, zero2) zero2) NO_CONVERGENCE 1) \<and>
   (cg_state_at real_ops (opts 0 1) (diagonal [1, 2]) [4, 1] (diagonal [1, 1])
       (zero2, zero2, zero2, zero2) zero2 0 \<noteq> None \<and>
    (\<exists>st1 st2. cg_direction real_ops (diagonal [1, 1])
       (the (cg_state_at real_ops (opts 0 1) (diagonal [1, 2]) [4, 1] (diagonal [1, 1])
          (zero2, zero2, zero2, zero2) zero2 0)) = Continue st1 \<and>
       cg_update real_ops (opts 0 1) (diagonal [1, 2]) [4, 1] st1 = Continue st2 \<and>
       \<not> d_lt real_ops (cg_zeta real_ops [4, 1] st2) (q_tolerance (opts 0 1)) \<and>
       \<not> d_le real_ops (v_norm real_ops (st_r st2)) (cg_tol_r real_ops (opts 0 1) [4, 1]) \<and>
       max_num_iterations (opts 0 1) \<le> 1) \<and>
    returns (ConjugateGradientsSolver real_ops (opts 0 1) (diagonal [1, 2]) [4, 1]
       (diagonal [1, 1]) (zero2, zero2, zero2, zero2) zero2) NO_CONVERGENCE 1)"
proof -
  let ?sc = "(zero2, zero2, zero2, zero2)"
  let ?I = "diagonal [1, 1]"
  let ?a = "cg_state_at real_ops (opts 2 10) ?I [3, 4] ?I ?sc zero2 1"
  let ?b = "cg_state_at real_ops (opts 3 10) (diagonal [1, 2]) [4, 1] ?I ?sc zero2 1"
  let ?c = "cg_state_at real_ops (opts 0 10) (diagonal [1, - 1]) [0, 1] ?I ?sc zero2 0"
  let ?d = "cg_state_at real_ops (opts 0 1) (diagonal [1, 2]) [4, 1] ?I ?sc zero2 0"
  have a: "?a \<noteq> None" by (simp add: cg_eval)
  have b: "?b \<noteq> None" by (simp add: cg_eval)
  have c: "?c \<noteq> None" by (simp add: cg_eval)
  have d: "?d \<noteq> None" by (simp add: cg_eval)
  have ra: "IsZeroOrInfinity real_ops (cg_rho real_ops ?I (the ?a))" by (simp add: cg_eval)
  have rb: "\<not> IsZeroOrInfinity real_ops (cg_rho real_ops ?I (the ?b)) \<and>
            IsZeroOrInfinity real_ops (cg_beta real_ops ?I (the ?b))" by (simp add: cg_eval)
  have rc: "\<exists>st1. cg_direction real_ops ?I (the ?c) = Continue st1 \<and>
       d_le real_ops (cg_pq real_ops (diagonal [1, - 1]) st1) (d_of_int real_ops 0)"
    by (simp add: cg_eval)
  have rd: "\<exists>st1 st2. cg_direction real_ops ?I (the ?d) = Continue st1 \<and>
       cg_update real_ops (opts 0 1) (diagonal [1, 2]) [4, 1] st1 = Continue st2 \<and>
       \<not> d_lt real_ops (cg_zeta real_ops [4, 1] st2) (q_tolerance (opts 0 1)) \<and>
       \<not> d_le real_ops (v_norm real_ops (st_r st2)) (cg_tol_r real_ops (opts 0 1) [4, 1]) \<and>
       max_num_iterations (opts 0 1) \<le> 1"
    by (simp add: cg_eval)
  from cg_breakdown_classification[OF at_Some[OF a]] ra
  have A: "returns (ConjugateGradientsSolver real_ops (opts 2 10) ?I [3, 4] ?I ?sc zero2) FAILURE 2"
    by simp
  from cg_breakdown_classification[OF at_Some[OF b]] rb
  have B: "returns (ConjugateGradientsSolver real_ops (opts 3 10) (diagonal [1, 2]) [4, 1] ?I ?sc zero2) FAILURE 2"
    by simp
  from cg_breakdown_classification[OF at_Some[OF c]] rc
  have C: "returns (ConjugateGradientsSolver real_ops (opts 0 10) (diagonal [1, - 1]) [0, 1] ?I ?sc zero2)
             NO_CONVERGENCE 1"
    by auto
  from cg_breakdown_classification[OF at_Some[OF d]] rd
  have D: "returns (ConjugateGradientsSolver real_ops (opts 0 1) (diagonal [1, 2]) [4, 1] ?I ?sc zero2)
             NO_CONVERGENCE 1"
    by auto
  from a b c d ra rb rc rd A B C D show ?thesis by blast
qed



section \<open>The termination tests\<close>

lemma cg_reach_Suc:
  "cg_reach N options lhs rhs preconditioner tol_r st0 k = Some st \<Longrightarrow>
   cg_reach N options lhs rhs preconditioner tol_r st0 (Suc k) =
     (case cg_iteration N options lhs rhs preconditioner tol_r st of
        Continue st' \<Rightarrow> Some (next_iteration st')
      | Break st' \<Rightarrow> None
      | Abort e \<Rightarrow> None)"
proof (induction k arbitrary: st0)
  case 0
  then show ?case by (simp split: outcome.splits)
next
  case (Suc k)
  from Suc.prems obtain st1 where
    it: "cg_iteration N options lhs rhs preconditioner tol_r st0 = Continue st1" and
    re: "cg_reach N options lhs rhs preconditioner tol_r (next_iteration st1) k = Some st"
    by (auto split: outcome.splits)
  have "cg_reach N options lhs rhs preconditioner tol_r st0 (Suc (Suc k)) =
        cg_reach N options lhs rhs preconditioner tol_r (next_iteration st1) (Suc k)"
    using it by simp
  with Suc.IH[OF re] show ?case by simp
qed

lemma cg_state_at_Suc:
  assumes "cg_state_at N options lhs rhs preconditioner scratch solution k = Some st"
    and "cg_iteration N options lhs rhs preconditioner (cg_tol_r N options rhs) st = Continue st'"
  shows "cg_state_at N options lhs rhs preconditioner scratch solution (Suc k) =
           Some (next_iteration st')"
proof -
  from assms(1) obtain st0 where
    p: "cg_prelude N options lhs rhs scratch solution = Inr (Inr st0)" and
    r: "cg_reach N options lhs rhs preconditioner (cg_tol_r N options rhs) st0 k = Some st"
    by (auto simp: cg_state_at_def split: sum.splits)
  from cg_reach_Suc[OF r] assms(2) p show ?thesis
    by (simp add: cg_state_at_def)
qed


text \<open>
  Claim C2. Let a run start its iteration \<open>k + 1\<close> in state \<open>st\<close> and let the iteration
  reach its end without breakdown, in state \<open>st2\<close> (new iterate and residual). If
  \<open>k + 1 \<ge> min_num_iterations\<close> and the quadratic-model test
  \<open>zeta = (k + 1) * (Q1 - Q0) / Q1 < q_tolerance\<close> holds, or the residual test
  \<open>|r| \<le> r_tolerance * |b|\<close> holds, the solver returns \<open>SUCCESS\<close> at once, with the
  iterate of this iteration and \<open>num_iterations = k + 1\<close>. Here \<open>Q1\<close> is the source's
  \<^verbatim>\<open>-1.0 * solution.dot(rhs + r)\<close>, the value of \<open>x'Ax - 2b'x\<close> for \<open>r = b - Ax\<close>. If
  \<open>k + 1 < min_num_iterations\<close>, whatever the two tests say, the iteration does not end
  the run with \<open>SUCCESS\<close>: the run goes on to iteration \<open>k + 2\<close>, unless
  \<open>max_num_iterations\<close> is reached, when it returns \<open>NO_CONVERGENCE\<close>. And whenever such a
  run reports \<open>SUCCESS\<close>, its \<open>num_iterations\<close> is at least \<open>min_num_iterations\<close>.
\<close>

theorem cg_termination_tests:
  assumes "cg_state_at N options lhs rhs preconditioner scratch solution k = Some st"
    and "cg_direction N preconditioner st = Continue st1"
    and "cg_update N options lhs rhs st1 = Continue st2"
  shows
    "(min_num_iterations options \<le> int k + 1 \<and>
      (d_lt N (cg_zeta N rhs st2) (q_tolerance options) \<or>
       d_le N (v_norm N (st_r st2)) (cg_tol_r N options rhs)) \<longrightarrow>
        (\<exists>s. ConjugateGradientsSolver N options lhs rhs preconditioner scratch solution =
                Inr (s, st_solution st2) \<and>
              termination_type s = SUCCESS \<and> num_iterations s = int k + 1)) \<and>
     (int k + 1 < min_num_iterations options \<longrightarrow>
        (if max_num_iterations options \<le> int k + 1
         then returns (ConjugateGradientsSolver N options lhs rhs preconditioner scratch solution)
                NO_CONVERGENCE (int k + 1)
         else cg_state_at N options lhs rhs preconditioner scratch solution (Suc k) =
                Some (next_iteration (st2\<lparr>st_Q0 := cg_Q N rhs (st_solution st2) (st_r st2)\<rparr>)))) \<and>
     (\<forall>s x. ConjugateGradientsSolver N options lhs rhs preconditioner scratch solution =
              Inr (s, x) \<and> termination_type s = SUCCESS \<longrightarrow>
            min_num_iterations options \<le> num_iterations s)"
proof -
  let ?tol = "cg_tol_r N options rhs"
  let ?run = "ConjugateGradientsSolver N options lhs rhs preconditioner scratch solution"
  let ?st' = "st2\<lparr>st_Q0 := cg_Q N rhs (st_solution st2) (st_r st2)\<rparr>"
  note run = cg_state_at_run(1)[OF assms(1)]
  note iter = cg_state_at_run(2)[OF assms(1)]
  note type = cg_state_at_type[OF assms(1)]
  have i2: "st_iter st2 = int k + 1"
    using cg_direction_iter[OF assms(2)] cg_update_iter[OF assms(3)] iter by simp
  have s2: "st_summary st2 = st_summary st"
    using cg_direction_summary[OF assms(2)] cg_update_summary[OF assms(3)] by simp
  have it: "cg_iteration N options lhs rhs preconditioner ?tol st = cg_tests N options rhs ?tol st2"
    using assms(2,3) by (simp add: cg_iteration_def)
  have pass: "\<exists>s. ?run = Inr (s, st_solution st2) \<and>
              termination_type s = SUCCESS \<and> num_iterations s = int k + 1"
    if m: "min_num_iterations options \<le> int k + 1"
      and t: "d_lt N (cg_zeta N rhs st2) (q_tolerance options) \<or>
              d_le N (v_norm N (st_r st2)) ?tol"
  proof -
    have "\<exists>st3. cg_tests N options rhs ?tol st2 = Break st3 \<and>
            termination_type (st_summary st3) = SUCCESS \<and> st_iter st3 = st_iter st2 \<and>
            st_solution st3 = st_solution st2"
      using m t i2
      by (cases "d_lt N (cg_zeta N rhs st2) (q_tolerance options)")
         (simp_all add: cg_tests_def Let_def terminate_def st_iter_def)
    then obtain st3 where
      b: "cg_tests N options rhs ?tol st2 = Break st3" and
      "termination_type (st_summary st3) = SUCCESS" "st_iter st3 = st_iter st2"
      "st_solution st3 = st_solution st2"
      by blast
    with cg_loop_Break[of N options lhs rhs preconditioner ?tol st st3] it run i2
    show ?thesis by (simp add: st_iter_def)
  qed
  have below: "cg_tests N options rhs ?tol st2 =
                 (if max_num_iterations options \<le> int k + 1 then Break ?st' else Continue ?st')"
    if "int k + 1 < min_num_iterations options"
    using that i2 by (simp add: cg_tests_def Let_def)
  have stay: "if max_num_iterations options \<le> int k + 1
         then returns ?run NO_CONVERGENCE (int k + 1)
         else cg_state_at N options lhs rhs preconditioner scratch solution (Suc k) =
                Some (next_iteration ?st')"
    if b: "int k + 1 < min_num_iterations options"
  proof (cases "max_num_iterations options \<le> int k + 1")
    case True
    with below[OF b] it have "cg_iteration N options lhs rhs preconditioner ?tol st = Break ?st'"
      by simp
    from cg_loop_Break[OF this] run s2 type i2 True show ?thesis
      by (simp add: returns_def st_iter_def)
  next
    case False
    with below[OF b] it have "cg_iteration N options lhs rhs preconditioner ?tol st = Continue ?st'"
      by simp
    from cg_state_at_Suc[OF assms(1) this] False show ?thesis by simp
  qed
  have nz: "\<not> d_eq N (v_norm N rhs) (d_of_int N 0)"
    using assms(1)
    by (auto simp: cg_state_at_def cg_prelude_def Let_def split: sum.splits if_splits prod.splits)
  have whole: "min_num_iterations options \<le> num_iterations s"
    if "?run = Inr (s, x)" "termination_type s = SUCCESS" for s x
    using cg_solver_success[OF that nz] .
  from pass stay whole show ?thesis by blast
qed


theorem cg_termination_tests_witness:
  "(\<exists>st st1 st2.
      cg_state_at real_ops opts_q (diagonal [1, 2]) [4, 1] (diagonal [1, 1])
        (zero2, zero2, zero2, zero2) zero2 0 = Some st \<and>
      cg_direction real_ops (diagonal [1, 1]) st = Continue st1 \<and>
      cg_update real_ops opts_q (diagonal [1, 2]) [4, 1] st1 = Continue st2 \<and>
      min_num_iterations opts_q \<le> 1 \<and>
      d_lt real_ops (cg_zeta real_ops [4, 1] st2) (q_tolerance opts_q)) \<and>
   (\<exists>s. ConjugateGradientsSolver real_ops opts_q (diagonal [1, 2]) [4, 1] (diagonal [1, 1])
          (zero2, zero2, zero2, zero2) zero2 = Inr (s, [34 / 9, 17 / 18]) \<and>
        termination_type s = SUCCESS \<and> num_iterations s = 1) \<and>
   (\<exists>st st1 st2.
      cg_state_at real_ops (opts 1 10) (diagonal [1, 1]) [3, 4] (diagonal [1, 1])
        (zero2, zero2, zero2, zero2) zero2 0 = Some st \<and>
      cg_direction real_ops (diagonal [1, 1]) st = Continue st1 \<and>
      cg_update real_ops (opts 1 10) (diagonal [1, 1]) [3, 4] st1 = Continue st2 \<and>
      min_num_iterations (opts 1 10) \<le> 1 \<and>
      \<not> d_lt real_ops (cg_zeta real_ops [3, 4] st2) (q_tolerance (opts 1 10)) \<and>
      d_le real_ops (v_norm real_ops (st_r st2)) (cg_tol_r real_ops (opts 1 10) [3, 4])) \<and>
   (\<exists>s. ConjugateGradientsSolver real_ops (opts 1 10) (diagonal [1, 1]) [3, 4] (diagonal [1, 1])
          (zero2, zero2, zero2, zero2) zero2 = Inr (s, [3, 4]) \<and>
        termination_type s = SUCCESS \<and> num_iterations s = 1) \<and>
   (\<exists>st st1 st2.
      cg_state_at real_ops (opts 2 10) (diagonal [1, 1]) [3, 4] (diagonal [1, 1])
        (zero2, zero2, zero2, zero2) zero2 0 = Some st \<and>
      cg_direction real_ops (diagonal [1, 1]) st = Continue st1 \<and>
      cg_update real_ops (opts 2 10) (diagonal [1, 1]) [3, 4] st1 = Continue st2 \<and>
      1 < min_num_iterations (opts 2 10) \<and>
      d_le real_ops (v_norm real_ops (st_r st2)) (cg_tol_r real_ops (opts 2 10) [3, 4])) \<and>
   cg_state_at real_ops (opts 2 10) (diagonal [1, 1]) [3, 4] (diagonal [1, 1])
        (zero2, zero2, zero2, zero2) zero2 (Suc 0) \<noteq> None"
proof -
  let ?sc = "(zero2, zero2, zero2, zero2)"
  let ?I = "diagonal [1, 1]"
  have a: "\<exists>st st1 st2.
      cg_state_at real_ops opts_q (diagonal [1, 2]) [4, 1] ?I ?sc zero2 0 = Some st \<and>
      cg_direction real_ops ?I st = Continue st1 \<and>
      cg_update real_ops opts_q (diagonal [1, 2]) [4, 1] st1 = Continue st2 \<and>
      min_num_iterations opts_q \<le> 1 \<and>
      d_lt real_ops (cg_zeta real_ops [4, 1] st2) (q_tolerance opts_q) \<and>
      st_solution st2 = [34 / 9, 17 / 18]"
    by (simp add: cg_eval opts_q_def)
  have b: "\<exists>st st1 st2.
      cg_state_at real_ops (opts 1 10) ?I [3, 4] ?I ?sc zero2 0 = Some st \<and>
      cg_direction real_ops ?I st = Continue st1 \<and>
      cg_update real_ops (opts 1 10) ?I [3, 4] st1 = Continue st2 \<and>
      min_num_iterations (opts 1 10) \<le> 1 \<and>
      \<not> d_lt real_ops (cg_zeta real_ops [3, 4] st2) (q_tolerance (opts 1 10)) \<and>
      d_le real_ops (v_norm real_ops (st_r st2)) (cg_tol_r real_ops (opts 1 10) [3, 4]) \<and>
      st_solution st2 = [3, 4]"
    by (simp add: cg_eval)
  have c: "\<exists>st st1 st2.
      cg_state_at real_ops (opts 2 10) ?I [3, 4] ?I ?sc zero2 0 = Some st \<and>
      cg_direction real_ops ?I st = Continue st1 \<and>
      cg_update real_ops (opts 2 10) ?I [3, 4] st1 = Continue st2 \<and>
      1 < min_num_iterations (opts 2 10) \<and>
      d_le real_ops (v_norm real_ops (st_r st2)) (cg_tol_r real_ops (opts 2 10) [3, 4]) \<and>
      \<not> max_num_iterations (opts 2 10) \<le> 1"
    by (simp add: cg_eval)
  from a obtain sa sa1 sa2 where
    a1: "cg_state_at real_ops opts_q (diagonal [1, 2]) [4, 1] ?I ?sc zero2 0 = Some sa" and
    a2: "cg_direction real_ops ?I sa = Continue sa1" and
    a3: "cg_update real_ops opts_q (diagonal [1, 2]) [4, 1] sa1 = Continue sa2" and
    a4: "min_num_iterations opts_q \<le> 1"
        "d_lt real_ops (cg_zeta real_ops [4, 1] sa2) (q_tolerance opts_q)"
        "st_solution sa2 = [34 / 9, 17 / 18]"
    by blast
  from cg_termination_tests[OF a1 a2 a3] a4
  have A: "\<exists>s. ConjugateGradientsSolver real_ops opts_q (diagonal [1, 2]) [4, 1] ?I ?sc zero2 =
             Inr (s, [34 / 9, 17 / 18]) \<and> termination_type s = SUCCESS \<and> num_iterations s = 1"
    by simp
  from b obtain sb sb1 sb2 where
    b1: "cg_state_at real_ops (opts 1 10) ?I [3, 4] ?I ?sc zero2 0 = Some sb" and
    b2: "cg_direction real_ops ?I sb = Continue sb1" and
    b3: "cg_update real_ops (opts 1 10) ?I [3, 4] sb1 = Continue sb2" and
    b4: "min_num_iterations (opts 1 10) \<le> 1"
        "d_le real_ops (v_norm real_ops (st_r sb2)) (cg_tol_r real_ops (opts 1 10) [3, 4])"
        "st_solution sb2 = [3, 4]"
    by blast
  from cg_termination_tests[OF b1 b2 b3] b4
  have B: "\<exists>s. ConjugateGradientsSolver real_ops (opts 1 10) ?I [3, 4] ?I ?sc zero2 =
             Inr (s, [3, 4]) \<and> termination_type s = SUCCESS \<and> num_iterations s = 1"
    by simp
  from c obtain sc sc1 sc2 where
    c1: "cg_state_at real_ops (opts 2 10) ?I [3, 4] ?I ?sc zero2 0 = Some sc" and
    c2: "cg_direction real_ops ?I sc = Continue sc1" and
    c3: "cg_update real_ops (opts 2 10) ?I [3, 4] sc1 = Continue sc2" and
    c4: "1 < min_num_iterations (opts 2 10)" "\<not> max_num_iterations (opts 2 10) \<le> 1"
    by blast
  from cg_termination_tests[OF c1 c2 c3] c4
  have C: "cg_state_at real_ops (opts 2 10) ?I [3, 4] ?I ?sc zero2 (Suc 0) \<noteq> None"
    by simp
  from a b c A B C show ?thesis by blast
qed


section \<open>Zero right-hand side\<close>

text \<open>
  Claim C3. If the right-hand side has norm zero (and the operator is square, as the
  \<^verbatim>\<open>CHECK_EQ\<close> demands), the solver returns \<open>SUCCESS\<close> with \<open>num_iterations = 0\<close> and the
  message \<^verbatim>\<open>Convergence. |b| = 0.\<close>, the solution is set to zero, and no iteration of the
  loop is started.
\<close>

theorem cg_zero_rhs:
  assumes "num_rows lhs = num_cols lhs"
    and "d_eq N (v_norm N rhs) (d_of_int N 0)"
  shows
    "ConjugateGradientsSolver N options lhs rhs preconditioner scratch solution =
       Inr (\<lparr>termination_type = SUCCESS, message = Literal ''Convergence. |b| = 0.'',
             num_iterations = 0\<rparr>, v_setZero N solution) \<and>
     (\<forall>k. cg_state_at N options lhs rhs preconditioner scratch solution k = None)"
  using assms
  by (simp add: ConjugateGradientsSolver_def cg_state_at_def cg_prelude_def Let_def
      split: prod.splits)


theorem cg_zero_rhs_witness:
  "num_rows (diagonal [1, 2]) = num_cols (diagonal [1, 2]) \<and>
   d_eq real_ops (v_norm real_ops [0, 0]) (d_of_int real_ops 0) \<and>
   ConjugateGradientsSolver real_ops (opts 0 10) (diagonal [1, 2]) [0, 0] (diagonal [1, 1])
       (zero2, zero2, zero2, zero2) [5, 7] =
     Inr (\<lparr>termination_type = SUCCESS, message = Literal ''Convergence. |b| = 0.'',
           num_iterations = 0\<rparr>, [0, 0])"
proof -
  have h1: "num_rows (diagonal [1, 2]) = num_cols (diagonal [1, 2])"
    by (simp add: diagonal_def)
  have h2: "d_eq real_ops (v_norm real_ops [0, 0]) (d_of_int real_ops 0)"
    by (simp add: real_ops_def)
  from cg_zero_rhs[OF h1 h2, of "opts 0 10" "diagonal [1, 1]" "(zero2, zero2, zero2, zero2)" "[5, 7]"]
    h1 h2 show ?thesis by (simp add: real_ops_def)
qed

section \<open>CgnrSolver\<close>

text \<open>
  \<^verbatim>\<open>CgnrSolver::SolveImpl\<close> of cgnr_solver.cc. The classes it calls are not among the
  sources; what it uses of them is collected in a record of parameters: the matrix
  \<open>A\<close> (\<^verbatim>\<open>num_cols\<close>, \<^verbatim>\<open>LeftMultiply\<close>), the two preconditioners it can create and their
  \<^verbatim>\<open>Update\<close>, the operator \<^verbatim>\<open>CgnrLinearOperator(A, D)\<close>, and
  \<^verbatim>\<open>ConjugateGradientsSolver(options_).Solve\<close>, which receives the operator, the right-hand
  side, the per-solve options and the vector \<open>x\<close> it is to update.
\<close>

datatype PreconditionerType =
  IDENTITY | JACOBI | SCHUR_JACOBI | CLUSTER_JACOBI | CLUSTER_TRIDIAGONAL | SUBSET |
  SCHUR_POWER_SERIES_EXPANSION | INCOMPLETE_CHOLESKY

text \<open>
  The enumerators of \<^verbatim>\<open>SparseLinearAlgebraLibraryType\<close> and \<^verbatim>\<open>OrderingType\<close> are those
  the sources name (sparse_cholesky_test.cc); \<^verbatim>\<open>options_.context\<close> is a pointer to a
  \<^verbatim>\<open>ContextImpl\<close>, kept as the address it holds. \<open>SolveImpl\<close> only copies the three.
\<close>

datatype SparseLinearAlgebraLibraryType = SUITE_SPARSE | CX_SPARSE | ACCELERATE_SPARSE | EIGEN_SPARSE

datatype OrderingType = NATURAL | AMD






















section \<open>ProgramEvaluator::Evaluate\<close>

text \<open>
  \<^verbatim>\<open>ProgramEvaluator::Evaluate\<close> of program_evaluator.h (lines 121-247).
  The loop over the residual blocks is an OpenMP \<^verbatim>\<open>parallel for\<close>. An iteration \<open>i\<close>
  takes part in a run through two events: \<open>Begin i\<close>, the flush and the test of
  \<open>abort\<close> at the top of the body, and \<open>Finish i\<close>, the return of
  \<^verbatim>\<open>residual_block->Evaluate\<close> with the rest of the body. A schedule is the order in which
  these events happen; with one thread it is \<open>Begin 0, Finish 0, Begin 1, ...\<close>. The flag
  is read and written under \<^verbatim>\<open>flush(abort)\<close>, so an event sees the writes of the events
  before it.

  \<open>evaluate_block i\<close> is the result of the cost function of block \<open>i\<close>: \<open>None\<close> when it
  returns false, the block's cost otherwise. \<open>thread_of i\<close> is the thread that runs
  iteration \<open>i\<close>, and \<open>add\<close>, \<open>zero\<close> are the addition and the zero of \<^verbatim>\<open>double\<close>.
\<close>

datatype event = Begin nat | Finish nat

record 'c eval_state =
  abort :: bool
  running :: "nat list"       \<comment> \<open>iterations inside the body\<close>
  called :: "nat list"        \<comment> \<open>blocks whose cost function has been called\<close>
  skipped :: "nat list"       \<comment> \<open>iterations that found \<open>abort\<close> set\<close>
  finished :: "nat list"      \<comment> \<open>blocks whose evaluation has returned\<close>
  stored :: "nat list"        \<comment> \<open>blocks whose cost, jacobian and gradient were stored\<close>
  scratch_cost :: "nat \<Rightarrow> 'c" \<comment> \<open>\<^verbatim>\<open>evaluate_scratch_[thread].cost\<close>\<close>

definition eval_init :: "'c \<Rightarrow> 'c eval_state" where
  "eval_init zero =
    \<lparr>abort = False, running = [], called = [], skipped = [], finished = [], stored = [],
     scratch_cost = (\<lambda>t. zero)\<rparr>"

fun eval_step ::
  "(nat \<Rightarrow> 'c option) \<Rightarrow> (nat \<Rightarrow> nat) \<Rightarrow> ('c \<Rightarrow> 'c \<Rightarrow> 'c) \<Rightarrow> 'c eval_state \<Rightarrow> event \<Rightarrow>
   'c eval_state" where
  "eval_step evaluate_block thread_of add s (Begin i) =
    (if abort s then s\<lparr>skipped := skipped s @ [i]\<rparr>
     else s\<lparr>running := i # running s, called := called s @ [i]\<rparr>)"
| "eval_step evaluate_block thread_of add s (Finish i) =
    (if i \<notin> set (running s) then s
     else
      (case evaluate_block i of
         None \<Rightarrow>
           s\<lparr>running := removeAll i (running s), finished := finished s @ [i], abort := True\<rparr>
       | Some block_cost \<Rightarrow>
           s\<lparr>running := removeAll i (running s), finished := finished s @ [i],
             stored := stored s @ [i],
             scratch_cost := (scratch_cost s)
               (thread_of i := add (scratch_cost s (thread_of i)) block_cost)\<rparr>))"

definition eval_run ::
  "(nat \<Rightarrow> 'c option) \<Rightarrow> (nat \<Rightarrow> nat) \<Rightarrow> ('c \<Rightarrow> 'c \<Rightarrow> 'c) \<Rightarrow> 'c \<Rightarrow> event list \<Rightarrow> 'c eval_state" where
  "eval_run evaluate_block thread_of add zero schedule =
     foldl (eval_step evaluate_block thread_of add) (eval_init zero) schedule"

text \<open>
  \<^verbatim>\<open>Evaluate\<close>: the early return when the state vector cannot be set, the loop, and the
  sum of the costs of the \<open>threads\<close> threads, which is written to \<^verbatim>\<open>*cost\<close> only when \<open>abort\<close> is not set.
  The result is the returned \<^verbatim>\<open>bool\<close> and the cost written, if any.
\<close>

definition Evaluate ::
  "bool \<Rightarrow> nat \<Rightarrow> (nat \<Rightarrow> 'c option) \<Rightarrow> (nat \<Rightarrow> nat) \<Rightarrow> ('c \<Rightarrow> 'c \<Rightarrow> 'c) \<Rightarrow> 'c \<Rightarrow> event list \<Rightarrow>
   bool \<times> 'c option" where
  "Evaluate state_ok threads evaluate_block thread_of add zero schedule =
    (if \<not> state_ok then (False, None)
     else
      (let s = eval_run evaluate_block thread_of add zero schedule
       in if \<not> abort s then
            (True, Some (foldl (\<lambda>c t. add c (scratch_cost s t)) zero [0..<threads]))
          else (False, None)))"

text \<open>The schedule of a single thread.\<close>

definition sequential :: "nat \<Rightarrow> event list" where
  "sequential n = concat (map (\<lambda>i. [Begin i, Finish i]) [0..<n])"

lemma eval_step_abort_mono:
  "abort s \<Longrightarrow> abort (eval_step evaluate_block thread_of add s e)"
  by (cases e) (auto split: option.splits)

lemma foldl_abort_mono:
  "abort s \<Longrightarrow> abort (foldl (eval_step evaluate_block thread_of add) s es)"
  by (induction es arbitrary: s) (simp_all add: eval_step_abort_mono)

lemma eval_step_called_abort:
  "abort s \<Longrightarrow> called (eval_step evaluate_block thread_of add s e) = called s"
  by (cases e) (auto split: option.splits)

lemma foldl_called_abort:
  "abort s \<Longrightarrow> called (foldl (eval_step evaluate_block thread_of add) s es) = called s"
proof (induction es arbitrary: s)
  case Nil
  then show ?case by simp
next
  case (Cons e es)
  from Cons.prems have "abort (eval_step evaluate_block thread_of add s e)"
    by (rule eval_step_abort_mono)
  from Cons.IH[OF this] eval_step_called_abort[OF Cons.prems] show ?case by simp
qed

lemma eval_step_abort_iff:
  "abort s = (\<exists>i\<in>set (finished s). evaluate_block i = None) \<Longrightarrow>
   abort (eval_step evaluate_block thread_of add s e) =
     (\<exists>i\<in>set (finished (eval_step evaluate_block thread_of add s e)). evaluate_block i = None)"
  by (cases e) (auto split: option.splits)

lemma foldl_abort_iff:
  "abort s = (\<exists>i\<in>set (finished s). evaluate_block i = None) \<Longrightarrow>
   abort (foldl (eval_step evaluate_block thread_of add) s es) =
     (\<exists>i\<in>set (finished (foldl (eval_step evaluate_block thread_of add) s es)).
        evaluate_block i = None)"
proof (induction es arbitrary: s)
  case Nil
  then show ?case by simp
next
  case (Cons e es)
  from Cons.IH[OF eval_step_abort_iff[OF Cons.prems]] show ?case by simp
qed

lemma eval_run_abort_iff:
  "abort (eval_run evaluate_block thread_of add zero schedule) =
     (\<exists>i\<in>set (finished (eval_run evaluate_block thread_of add zero schedule)).
        evaluate_block i = None)"
  unfolding eval_run_def by (rule foldl_abort_iff) (simp add: eval_init_def)


lemma eval_step_skipped_mono:
  "j \<in> set (skipped s) \<Longrightarrow> j \<in> set (skipped (eval_step evaluate_block thread_of add s e))"
  by (cases e) (auto split: option.splits)

lemma foldl_skipped_mono:
  "j \<in> set (skipped s) \<Longrightarrow>
   j \<in> set (skipped (foldl (eval_step evaluate_block thread_of add) s es))"
  by (induction es arbitrary: s) (simp_all add: eval_step_skipped_mono)

lemma foldl_skipped_abort:
  "abort s \<Longrightarrow> Begin j \<in> set es \<Longrightarrow>
   j \<in> set (skipped (foldl (eval_step evaluate_block thread_of add) s es))"
proof (induction es arbitrary: s)
  case Nil
  then show ?case by simp
next
  case (Cons e es)
  have a: "abort (eval_step evaluate_block thread_of add s e)"
    using Cons.prems(1) by (rule eval_step_abort_mono)
  show ?case
  proof (cases "e = Begin j")
    case True
    with Cons.prems(1) have "j \<in> set (skipped (eval_step evaluate_block thread_of add s e))"
      by simp
    then show ?thesis by (simp add: foldl_skipped_mono)
  next
    case False
    with Cons.prems(2) have "Begin j \<in> set es" by auto
    from Cons.IH[OF a this] show ?thesis by simp
  qed
qed

lemma eval_step_finished_mono:
  "j \<in> set (finished s) \<Longrightarrow> j \<in> set (finished (eval_step evaluate_block thread_of add s e))"
  by (cases e) (auto split: option.splits)

lemma foldl_finished_mono:
  "j \<in> set (finished s) \<Longrightarrow>
   j \<in> set (finished (foldl (eval_step evaluate_block thread_of add) s es))"
  by (induction es arbitrary: s) (simp_all add: eval_step_finished_mono)

lemma eval_step_running:
  "j \<in> set (running s) \<Longrightarrow> e \<noteq> Finish j \<Longrightarrow>
   j \<in> set (running (eval_step evaluate_block thread_of add s e))"
  by (cases e) (auto split: option.splits)

lemma eval_step_Finish:
  "j \<in> set (running s) \<Longrightarrow>
   j \<in> set (finished (eval_step evaluate_block thread_of add s (Finish j)))"
  by (auto split: option.splits)

lemma foldl_running_finished:
  "j \<in> set (running s) \<Longrightarrow> Finish j \<in> set es \<Longrightarrow>
   j \<in> set (finished (foldl (eval_step evaluate_block thread_of add) s es))"
proof (induction es arbitrary: s)
  case Nil
  then show ?case by simp
next
  case (Cons e es)
  show ?case
  proof (cases "e = Finish j")
    case True
    with eval_step_Finish[OF Cons.prems(1)] show ?thesis
      by (simp add: foldl_finished_mono)
  next
    case False
    with Cons.prems(2) have "Finish j \<in> set es" by auto
    from Cons.IH[OF eval_step_running[OF Cons.prems(1) False] this] show ?thesis by simp
  qed
qed

text \<open>
  Claim C7. Let the evaluation of residual block \<open>i\<close> return false during a run of
  \<open>Evaluate\<close> (the event \<open>Finish i\<close> of an iteration that is in its body). Then, for every
  schedule: \<open>Evaluate\<close> returns false and writes no cost; no cost function is called after
  that event; every iteration that begins after it finds \<open>abort\<close> set and skips its body;
  and the iterations that were in their body at that moment are not interrupted: their
  evaluations return later in the schedule.
\<close>

theorem evaluate_cooperative_abort:
  assumes "schedule = before @ Finish i # after"
    and "i \<in> set (running (eval_run evaluate_block thread_of add zero before))"
    and "evaluate_block i = None"
  shows
    "Evaluate state_ok threads evaluate_block thread_of add zero schedule = (False, None) \<and>
     called (eval_run evaluate_block thread_of add zero schedule) =
       called (eval_run evaluate_block thread_of add zero before) \<and>
     (\<forall>j. Begin j \<in> set after \<longrightarrow>
        j \<in> set (skipped (eval_run evaluate_block thread_of add zero schedule))) \<and>
     (\<forall>j. j \<in> set (running (eval_run evaluate_block thread_of add zero before)) \<and>
        Finish j \<in> set after \<longrightarrow>
        j \<in> set (finished (eval_run evaluate_block thread_of add zero schedule)))"
proof -
  let ?step = "eval_step evaluate_block thread_of add"
  let ?s0 = "eval_run evaluate_block thread_of add zero before"
  let ?s1 = "?step ?s0 (Finish i)"
  have run: "eval_run evaluate_block thread_of add zero schedule = foldl ?step ?s1 after"
    using assms(1) by (simp add: eval_run_def)
  have a1: "abort ?s1" using assms(2,3) by simp
  have c1: "called ?s1 = called ?s0" using assms(2,3) by simp
  have ab: "abort (eval_run evaluate_block thread_of add zero schedule)"
    using run foldl_abort_mono[OF a1] by simp
  have r1: "Evaluate state_ok threads evaluate_block thread_of add zero schedule = (False, None)"
    using ab by (simp add: Evaluate_def Let_def)
  have r2: "called (eval_run evaluate_block thread_of add zero schedule) = called ?s0"
    using run foldl_called_abort[OF a1] c1 by simp
  have r3: "j \<in> set (skipped (eval_run evaluate_block thread_of add zero schedule))"
    if "Begin j \<in> set after" for j
    using run foldl_skipped_abort[OF a1 that] by simp
  have r4: "j \<in> set (finished (eval_run evaluate_block thread_of add zero schedule))"
    if j: "j \<in> set (running ?s0)" and f: "Finish j \<in> set after" for j
  proof (cases "j = i")
    case True
    with eval_step_Finish[OF assms(2)] run show ?thesis
      by (simp add: foldl_finished_mono)
  next
    case False
    then have "j \<in> set (running ?s1)"
      using j by (intro eval_step_running) simp_all
    from foldl_running_finished[OF this f] run show ?thesis by simp
  qed
  from r1 r2 r3 r4 show ?thesis by blast
qed

definition fails_at :: "nat \<Rightarrow> nat \<Rightarrow> int option" where
  "fails_at k i = (if i = k then None else Some 1)"

theorem evaluate_cooperative_abort_witness:
  "0 \<in> set (running (eval_run (fails_at 0) (\<lambda>i. i mod 2) (+) 0 [Begin 0, Begin 1])) \<and>
   fails_at 0 0 = None \<and>
   Evaluate True 2 (fails_at 0) (\<lambda>i. i mod 2) (+) 0
     [Begin 0, Begin 1, Finish 0, Begin 2, Finish 1] = (False, None) \<and>
   called (eval_run (fails_at 0) (\<lambda>i. i mod 2) (+) 0
     [Begin 0, Begin 1, Finish 0, Begin 2, Finish 1]) = [0, 1] \<and>
   2 \<in> set (skipped (eval_run (fails_at 0) (\<lambda>i. i mod 2) (+) 0
     [Begin 0, Begin 1, Finish 0, Begin 2, Finish 1])) \<and>
   1 \<in> set (finished (eval_run (fails_at 0) (\<lambda>i. i mod 2) (+) 0
     [Begin 0, Begin 1, Finish 0, Begin 2, Finish 1])) \<and>
   sequential 3 = [Begin 0, Finish 0, Begin 1] @ Finish 1 # [Begin 2, Finish 2] \<and>
   1 \<in> set (running (eval_run (fails_at 1) (\<lambda>i. 0) (+) 0 [Begin 0, Finish 0, Begin 1])) \<and>
   fails_at 1 1 = None \<and>
   Evaluate True 1 (fails_at 1) (\<lambda>i. 0) (+) 0 (sequential 3) = (False, None) \<and>
   called (eval_run (fails_at 1) (\<lambda>i. 0) (+) 0 (sequential 3)) = [0, 1] \<and>
   2 \<in> set (skipped (eval_run (fails_at 1) (\<lambda>i. 0) (+) 0 (sequential 3)))"
proof -
  have h1: "[Begin 0, Begin 1, Finish 0, Begin 2, Finish 1] =
            [Begin 0, Begin 1] @ Finish 0 # [Begin 2, Finish 1]"
    by simp
  have h2: "0 \<in> set (running (eval_run (fails_at 0) (\<lambda>i. i mod 2) (+) 0 [Begin 0, Begin 1]))"
    by (simp add: eval_run_def eval_init_def)
  have h3: "fails_at 0 0 = None"
    by (simp add: fails_at_def)
  have h4: "called (eval_run (fails_at 0) (\<lambda>i. i mod 2) (+) 0 [Begin 0, Begin 1]) = [0, 1]"
    by (simp add: eval_run_def eval_init_def)
  have h5: "1 \<in> set (running (eval_run (fails_at 0) (\<lambda>i. i mod 2) (+) 0 [Begin 0, Begin 1]))"
    by (simp add: eval_run_def eval_init_def)
  have s1: "sequential 3 = [Begin 0, Finish 0, Begin 1] @ Finish 1 # [Begin 2, Finish 2]"
    by (simp add: sequential_def numeral_3_eq_3)
  have s2: "1 \<in> set (running (eval_run (fails_at 1) (\<lambda>i. 0) (+) 0 [Begin 0, Finish 0, Begin 1]))"
    by (simp add: eval_run_def eval_init_def fails_at_def)
  have s3: "fails_at 1 1 = None"
    by (simp add: fails_at_def)
  have s4: "called (eval_run (fails_at 1) (\<lambda>i. 0) (+) 0 [Begin 0, Finish 0, Begin 1]) = [0, 1]"
    by (simp add: eval_run_def eval_init_def fails_at_def)
  from evaluate_cooperative_abort[OF h1 h2 h3, of True 2]
       evaluate_cooperative_abort[OF s1 s2 s3, of True 1] h2 h3 h4 h5 s1 s2 s3 s4
  show ?thesis by simp
qed

section \<open>Direct solvers: FactorAndSolve\<close>

text \<open>
  dense_qr.h declares \<^verbatim>\<open>DenseQR::FactorAndSolve\<close> and documents it (\<open>Solve is only called
  if Factorize returns LINEAR_SOLVER_SUCCESS\<close>); its body, and the classes
  \<^verbatim>\<open>SparseCholesky\<close>, \<^verbatim>\<open>RefinedSparseCholesky\<close> and \<^verbatim>\<open>IterativeRefiner\<close> that
  sparse_cholesky_test.cc exercises through mocks, are not among the sources.

  A back end is given by its \<^verbatim>\<open>Factorize\<close> and \<^verbatim>\<open>Solve\<close>, which act on the state \<open>'s\<close> of
  the factorization object; every call made is recorded.
\<close>

datatype solver_call = FactorizeCall | SolveCall | RefineCall

record ('s, 'm, 'v) direct_solver =
  Factorize :: "'s \<Rightarrow> 'm \<Rightarrow> LinearSolverTerminationType \<times> 's"
  Solve :: "'s \<Rightarrow> 'v \<Rightarrow> 'v \<Rightarrow> LinearSolverTerminationType \<times> 'v \<times> 's"

text \<open>
  Modelled from the spec: \<^verbatim>\<open>FactorAndSolve\<close> of \<^verbatim>\<open>DenseQR\<close> and \<^verbatim>\<open>SparseCholesky\<close>, whose
  bodies are missing. \<open>\<^verbatim>\<open>FactorAndSolve\<close> composes both, short-circuiting (skipping
  \<^verbatim>\<open>Solve\<close>) if \<^verbatim>\<open>Factorize\<close> did not return SUCCESS.\<close> The result is the termination
  type, the contents of \<open>solution\<close>, the state of the object and the calls made.
\<close>

definition FactorAndSolve ::
  "('s, 'm, 'v) direct_solver \<Rightarrow> 's \<Rightarrow> 'm \<Rightarrow> 'v \<Rightarrow> 'v \<Rightarrow>
   LinearSolverTerminationType \<times> 'v \<times> 's \<times> solver_call list" where
  "FactorAndSolve B s lhs rhs solution =
    (case Factorize B s lhs of
       (status, s1) \<Rightarrow>
         if status \<noteq> SUCCESS then (status, solution, s1, [FactorizeCall])
         else
          (case Solve B s1 rhs solution of
             (status2, solution2, s2) \<Rightarrow>
               (status2, solution2, s2, [FactorizeCall, SolveCall])))"

text \<open>
  Modelled from the spec: \<^verbatim>\<open>RefinedSparseCholesky\<close>, missing from the sources. \<open>An
  optional iterative-refinement wrapper re-solves and corrects for residual round-off
  after a successful factor-and-solve, invoked only on success.\<close> \<open>Refine\<close> is the
  refiner's \<^verbatim>\<open>Refine(lhs, rhs, sparse_cholesky, solution)\<close>.
\<close>

definition RefinedFactorAndSolve ::
  "('s, 'm, 'v) direct_solver \<Rightarrow> ('m \<Rightarrow> 'v \<Rightarrow> 's \<Rightarrow> 'v \<Rightarrow> 'v) \<Rightarrow> 's \<Rightarrow> 'm \<Rightarrow> 'v \<Rightarrow> 'v \<Rightarrow>
   LinearSolverTerminationType \<times> 'v \<times> 's \<times> solver_call list" where
  "RefinedFactorAndSolve B Refine s lhs rhs solution =
    (case FactorAndSolve B s lhs rhs solution of
       (status, solution1, s1, calls) \<Rightarrow>
         if status = SUCCESS then
           (SUCCESS, Refine lhs rhs s1 solution1, s1, calls @ [RefineCall])
         else (status, solution1, s1, calls))"

text \<open>
  Claim C5. \<open>FactorAndSolve\<close> calls \<open>Solve\<close> if and only if \<open>Factorize\<close> returned
  \<open>SUCCESS\<close>; when the factorization fails, its termination type is returned, \<open>Solve\<close> is
  not called and the solution is left as it was. The same holds with the refinement
  wrapper, whose \<open>Refine\<close> is called if and only if both \<open>Factorize\<close> and \<open>Solve\<close>
  returned \<open>SUCCESS\<close>.
\<close>

theorem factor_and_solve_short_circuit:
  "(SolveCall \<in> set (snd (snd (snd (FactorAndSolve B s lhs rhs solution)))) \<longleftrightarrow>
      fst (Factorize B s lhs) = SUCCESS) \<and>
   (fst (Factorize B s lhs) \<noteq> SUCCESS \<longrightarrow>
      FactorAndSolve B s lhs rhs solution =
        (fst (Factorize B s lhs), solution, snd (Factorize B s lhs), [FactorizeCall])) \<and>
   (SolveCall \<in> set (snd (snd (snd (RefinedFactorAndSolve B Refine s lhs rhs solution)))) \<longleftrightarrow>
      fst (Factorize B s lhs) = SUCCESS) \<and>
   (fst (Factorize B s lhs) \<noteq> SUCCESS \<longrightarrow>
      RefinedFactorAndSolve B Refine s lhs rhs solution =
        (fst (Factorize B s lhs), solution, snd (Factorize B s lhs), [FactorizeCall])) \<and>
   (RefineCall \<in> set (snd (snd (snd (RefinedFactorAndSolve B Refine s lhs rhs solution)))) \<longleftrightarrow>
      fst (Factorize B s lhs) = SUCCESS \<and>
      fst (Solve B (snd (Factorize B s lhs)) rhs solution) = SUCCESS)"
  by (auto simp: FactorAndSolve_def RefinedFactorAndSolve_def split: prod.splits)


text \<open>
  The mock objects of sparse_cholesky_test.cc: \<^verbatim>\<open>Factorize\<close> and \<^verbatim>\<open>Solve\<close> return fixed
  termination types; the state counts the calls received.
\<close>

definition MockSparseCholesky ::
  "LinearSolverTerminationType \<Rightarrow> LinearSolverTerminationType \<Rightarrow> (nat, unit, int) direct_solver" where
  "MockSparseCholesky f t =
    \<lparr>Factorize = (\<lambda>n m. (f, Suc n)), Solve = (\<lambda>n rhs solution. (t, solution, Suc n))\<rparr>"

theorem factor_and_solve_short_circuit_witness:
  "fst (Factorize (MockSparseCholesky FAILURE SUCCESS) 0 ()) \<noteq> SUCCESS \<and>
   RefinedFactorAndSolve (MockSparseCholesky FAILURE SUCCESS) (\<lambda>lhs rhs s x. x + 1) 0 () 0 0 =
     (FAILURE, 0, 1, [FactorizeCall]) \<and>
   FactorAndSolve (MockSparseCholesky FAILURE SUCCESS) 0 () 0 0 =
     (FAILURE, 0, 1, [FactorizeCall]) \<and>
   fst (Factorize (MockSparseCholesky SUCCESS SUCCESS) 0 ()) = SUCCESS \<and>
   fst (Solve (MockSparseCholesky SUCCESS SUCCESS)
          (snd (Factorize (MockSparseCholesky SUCCESS SUCCESS) 0 ())) 0 0) = SUCCESS \<and>
   RefineCall \<in> set (snd (snd (snd
     (RefinedFactorAndSolve (MockSparseCholesky SUCCESS SUCCESS) (\<lambda>lhs rhs s x. x + 1) 0 () 0 0)))) \<and>
   SolveCall \<in> set (snd (snd (snd
     (FactorAndSolve (MockSparseCholesky SUCCESS SUCCESS) 0 () 0 0))))"
  using factor_and_solve_short_circuit
          [of "MockSparseCholesky FAILURE SUCCESS" 0 "()" 0 0 "\<lambda>lhs rhs s x. x + 1"]
        factor_and_solve_short_circuit
          [of "MockSparseCholesky SUCCESS SUCCESS" 0 "()" 0 0 "\<lambda>lhs rhs s x. x + 1"]
  by (simp add: MockSparseCholesky_def)


section \<open>Solve: degenerate problems and constant parameter blocks\<close>

text \<open>
  Modelled from the spec: the problem with its parameter and residual blocks, and
  \<^verbatim>\<open>Solve(options, &problem, &summary)\<close>. solver_test.cc drives them; the solver, the
  problem classes and the minimizer are not among the sources.

  A parameter block holds its values (of a type \<open>'x\<close> that is not looked into, so equality
  of values is equality of their bits) and its constancy flag. A residual block names the
  parameter blocks it depends on, by position, and has a cost function that maps their
  values to the block's cost \<open>1/2 |r|^2\<close>.
\<close>

datatype TerminationType = CONVERGENCE | SOLVER_NO_CONVERGENCE | SOLVER_FAILURE | USER_SUCCESS | USER_FAILURE

record 'x ParameterBlock =
  state :: 'x
  is_constant :: bool

record ('x, 'c) ResidualBlock =
  parameter_block_ids :: "nat list"
  cost_function :: "'x list \<Rightarrow> 'c"

record ('x, 'c) Problem =
  parameter_blocks :: "'x ParameterBlock list"
  residual_blocks :: "('x, 'c) ResidualBlock list"

record 'c SolverSummary =
  solver_termination_type :: TerminationType
  solver_message :: string
  initial_cost :: 'c
  final_cost :: 'c
  cost_function_calls :: "nat list"
    \<comment> \<open>the residual blocks whose cost function was applied, in the order of the calls\<close>

text \<open>What the minimizer loop reports: how it ended, the values it leaves in the
  non-constant parameter blocks, and the residual blocks whose cost function its evaluator
  applied, in the order of the calls.\<close>

record 'x MinimizerResult =
  min_termination_type :: TerminationType
  min_message :: string
  min_state :: "'x list"
  min_cost_function_calls :: "nat list"

definition block_cost :: "'x ParameterBlock list \<Rightarrow> ('x, 'c) ResidualBlock \<Rightarrow> 'c" where
  "block_cost blocks rb = cost_function rb (map (\<lambda>i. state (blocks ! i)) (parameter_block_ids rb))"

definition total_cost ::
  "('c \<Rightarrow> 'c \<Rightarrow> 'c) \<Rightarrow> 'c \<Rightarrow> 'x ParameterBlock list \<Rightarrow> ('x, 'c) ResidualBlock list \<Rightarrow> 'c" where
  "total_cost add zero blocks rbs = foldl add zero (map (block_cost blocks) rbs)"

text \<open>
  The cost of a problem is obtained by applying the cost function of each residual
  block in turn; \<open>evaluate_from\<close> adds the block's cost and records the call in the same
  step.
\<close>

fun evaluate_from ::
  "('c \<Rightarrow> 'c \<Rightarrow> 'c) \<Rightarrow> 'x ParameterBlock list \<Rightarrow> nat \<Rightarrow> 'c \<times> nat list \<Rightarrow>
   ('x, 'c) ResidualBlock list \<Rightarrow> 'c \<times> nat list" where
  "evaluate_from add blocks i acc [] = acc"
| "evaluate_from add blocks i (cost, calls) (rb # rbs) =
     evaluate_from add blocks (Suc i) (add cost (block_cost blocks rb), calls @ [i]) rbs"

definition evaluate_cost ::
  "('c \<Rightarrow> 'c \<Rightarrow> 'c) \<Rightarrow> 'c \<Rightarrow> 'x ParameterBlock list \<Rightarrow> ('x, 'c) ResidualBlock list \<Rightarrow>
   'c \<times> nat list" where
  "evaluate_cost add zero blocks rbs = evaluate_from add blocks 0 (zero, []) rbs"

definition varying :: "'x ParameterBlock list \<Rightarrow> nat list" where
  "varying blocks = filter (\<lambda>i. \<not> is_constant (blocks ! i)) [0..<length blocks]"

fun store_state :: "'x ParameterBlock list \<Rightarrow> (nat \<times> 'x) list \<Rightarrow> 'x ParameterBlock list" where
  "store_state blocks [] = blocks"
| "store_state blocks ((i, v) # rest) = store_state (blocks[i := (blocks ! i)\<lparr>state := v\<rparr>]) rest"

text \<open>
  Modelled from the spec: \<^verbatim>\<open>ceres::Solve\<close>, missing from the sources. \<open>Special-case degenerate
  problems: zero non-constant parameter blocks or identically-zero residual count are
  detected before the loop starts and reported as immediate CONVERGENCE with a fixed
  diagnostic message, without invoking the evaluator.\<close> Otherwise the minimizer loop runs
  on the non-constant parameter blocks (\<open>Jacobian: matrix of partial derivatives of all
  residuals with respect to all non-constant parameters\<close>) and its result is stored in
  them. The summary's costs are the objective at the values before and after the solve.
  The spec does not say where the cost of a degenerate problem comes from;
  \<^verbatim>\<open>TEST(Solver, TrustRegionProblemIsConstant)\<close> expects the cost \<open>1/2\<close> of the residual over
  the constant block, so the residual blocks are evaluated in that branch too, outside
  the minimizer loop and its evaluator.
\<close>

definition ceres_Solve ::
  "('c \<Rightarrow> 'c \<Rightarrow> 'c) \<Rightarrow> 'c \<Rightarrow> ('x list \<Rightarrow> 'x MinimizerResult) \<Rightarrow> ('x, 'c) Problem \<Rightarrow>
   'c SolverSummary \<times> ('x, 'c) Problem" where
  "ceres_Solve add zero minimizer problem =
    (let blocks = parameter_blocks problem;
         (cost, calls) = evaluate_cost add zero blocks (residual_blocks problem)
     in if varying blocks = [] \<or> residual_blocks problem = [] then
          (\<lparr>solver_termination_type = CONVERGENCE,
            solver_message =
              ''Function tolerance reached. '' @ ''No non-constant parameter blocks found.'',
            initial_cost = cost, final_cost = cost, cost_function_calls = calls\<rparr>,
           problem)
        else
          (let result = minimizer (map (\<lambda>i. state (blocks ! i)) (varying blocks));
               blocks1 = store_state blocks (zip (varying blocks) (min_state result));
               (cost1, calls1) = evaluate_cost add zero blocks1 (residual_blocks problem)
           in (\<lparr>solver_termination_type = min_termination_type result,
                solver_message = min_message result,
                initial_cost = cost,
                final_cost = cost1,
                cost_function_calls = calls @ min_cost_function_calls result @ calls1\<rparr>,
               problem\<lparr>parameter_blocks := blocks1\<rparr>)))"

lemma evaluate_from_eq:
  "evaluate_from add blocks i (cost, calls) rbs =
     (foldl add cost (map (block_cost blocks) rbs), calls @ [i..<i + length rbs])"
proof (induction rbs arbitrary: i cost calls)
  case Nil
  then show ?case by simp
next
  case (Cons rb rbs)
  have "i < i + length (rb # rbs)" by simp
  then have "[i..<i + length (rb # rbs)] = i # [Suc i..<i + length (rb # rbs)]"
    by (rule upt_conv_Cons)
  then have "[i..<i + length (rb # rbs)] = i # [Suc i..<Suc i + length rbs]"
    by simp
  with Cons.IH show ?case by simp
qed

lemma evaluate_cost_eq:
  "evaluate_cost add zero blocks rbs = (total_cost add zero blocks rbs, [0..<length rbs])"
  by (simp add: evaluate_cost_def total_cost_def evaluate_from_eq)

lemma store_state_length: "length (store_state blocks ivs) = length blocks"
  by (induction blocks ivs rule: store_state.induct) simp_all

lemma store_state_other:
  "i \<notin> fst ` set ivs \<Longrightarrow> store_state blocks ivs ! i = blocks ! i"
  by (induction blocks ivs rule: store_state.induct) auto

lemma store_state_flag:
  "i < length blocks \<Longrightarrow> is_constant (store_state blocks ivs ! i) = is_constant (blocks ! i)"
proof (induction blocks ivs rule: store_state.induct)
  case (1 blocks)
  then show ?case by simp
next
  case (2 blocks j v rest)
  then show ?case by (cases "i = j") simp_all
qed

lemma store_state_constant:
  assumes "is_constant (blocks ! i)"
  shows "store_state blocks (zip (varying blocks) vs) ! i = blocks ! i"
proof -
  have "i \<notin> set (varying blocks)" using assms by (simp add: varying_def)
  then have "i \<notin> fst ` set (zip (varying blocks) vs)"
    by (auto dest: set_zip_leftD)
  then show ?thesis by (rule store_state_other)
qed







definition to_zero :: "real list \<Rightarrow> real MinimizerResult" where
  "to_zero xs =
     \<lparr>min_termination_type = SOLVER_NO_CONVERGENCE, min_message = ''Moved.'',
      min_state = map (\<lambda>x. 0) xs, min_cost_function_calls = [0, 0, 0]\<rparr>"



lemma block_cost_constant:
  assumes "\<forall>i\<in>set (parameter_block_ids rb). is_constant (blocks ! i)"
  shows "block_cost (store_state blocks (zip (varying blocks) vs)) rb = block_cost blocks rb"
proof -
  have "map (\<lambda>i. state (store_state blocks (zip (varying blocks) vs) ! i)) (parameter_block_ids rb) =
        map (\<lambda>i. state (blocks ! i)) (parameter_block_ids rb)"
  proof (rule map_cong[OF refl])
    fix i
    assume "i \<in> set (parameter_block_ids rb)"
    with assms have "is_constant (blocks ! i)" by simp
    then show "state (store_state blocks (zip (varying blocks) vs) ! i) = state (blocks ! i)"
      by (simp add: store_state_constant)
  qed
  then show ?thesis unfolding block_cost_def by (rule arg_cong)
qed

text \<open>
  Claim C8. After \<open>Solve\<close>, every constant parameter block holds the value and the flag
  it held before, whatever the minimizer did; and when every parameter block that a
  residual block depends on is constant, the summary's \<open>initial_cost\<close> and \<open>final_cost\<close>
  are equal.
\<close>

theorem constant_blocks_unchanged:
  "length (parameter_blocks (snd (ceres_Solve add zero minimizer problem))) =
     length (parameter_blocks problem) \<and>
   (\<forall>i<length (parameter_blocks problem).
      is_constant (parameter_blocks problem ! i) \<longrightarrow>
      parameter_blocks (snd (ceres_Solve add zero minimizer problem)) ! i =
        parameter_blocks problem ! i) \<and>
   ((\<forall>rb\<in>set (residual_blocks problem). \<forall>i\<in>set (parameter_block_ids rb).
       i < length (parameter_blocks problem) \<and> is_constant (parameter_blocks problem ! i)) \<longrightarrow>
    initial_cost (fst (ceres_Solve add zero minimizer problem)) =
      final_cost (fst (ceres_Solve add zero minimizer problem)))"
proof -
  let ?blocks = "parameter_blocks problem"
  let ?vs = "min_state (minimizer (map (\<lambda>i. state (?blocks ! i)) (varying ?blocks)))"
  let ?blocks1 = "store_state ?blocks (zip (varying ?blocks) ?vs)"
  have len: "length (parameter_blocks (snd (ceres_Solve add zero minimizer problem))) = length ?blocks"
    by (simp add: ceres_Solve_def Let_def evaluate_cost_eq store_state_length)
  have keep: "parameter_blocks (snd (ceres_Solve add zero minimizer problem)) ! i = ?blocks ! i"
    if "is_constant (?blocks ! i)" for i
    using that by (simp add: ceres_Solve_def Let_def evaluate_cost_eq store_state_constant)
  have cost: "initial_cost (fst (ceres_Solve add zero minimizer problem)) =
              final_cost (fst (ceres_Solve add zero minimizer problem))"
    if h: "\<forall>rb\<in>set (residual_blocks problem). \<forall>i\<in>set (parameter_block_ids rb).
             i < length ?blocks \<and> is_constant (?blocks ! i)"
  proof -
    have "map (block_cost ?blocks1) (residual_blocks problem) =
          map (block_cost ?blocks) (residual_blocks problem)"
    proof (rule map_cong[OF refl])
      fix rb
      assume "rb \<in> set (residual_blocks problem)"
      with h have "\<forall>i\<in>set (parameter_block_ids rb). is_constant (?blocks ! i)" by simp
      then show "block_cost ?blocks1 rb = block_cost ?blocks rb"
        by (rule block_cost_constant)
    qed
    then have "total_cost add zero ?blocks1 (residual_blocks problem) =
               total_cost add zero ?blocks (residual_blocks problem)"
      unfolding total_cost_def by (rule arg_cong)
    then show ?thesis by (simp add: ceres_Solve_def Let_def evaluate_cost_eq)
  qed
  from len keep cost show ?thesis by blast
qed

text \<open>
  A problem in the shape of \<^verbatim>\<open>TEST(Solver, TrustRegionProblemIsConstant)\<close> with a second,
  free parameter block: the residual \<open>x\<close> of cost \<open>x^2 / 2\<close> depends on the constant block
  only.
\<close>

definition constant_and_free :: "(real, real) Problem" where
  "constant_and_free =
     \<lparr>parameter_blocks = [\<lparr>state = 1, is_constant = True\<rparr>, \<lparr>state = 2, is_constant = False\<rparr>],
      residual_blocks =
        [\<lparr>parameter_block_ids = [0], cost_function = (\<lambda>xs. (hd xs)\<^sup>2 / 2)\<rparr>]\<rparr>"

theorem constant_blocks_unchanged_witness:
  "is_constant (parameter_blocks constant_and_free ! 0) \<and>
   list_all (\<lambda>rb. list_all (\<lambda>i. i < length (parameter_blocks constant_and_free) \<and>
                                is_constant (parameter_blocks constant_and_free ! i))
                         (parameter_block_ids rb))
     (residual_blocks constant_and_free) \<and>
   parameter_blocks (snd (ceres_Solve (+) 0 to_zero constant_and_free)) =
     [\<lparr>state = 1, is_constant = True\<rparr>, \<lparr>state = 0, is_constant = False\<rparr>] \<and>
   initial_cost (fst (ceres_Solve (+) 0 to_zero constant_and_free)) = 1 / 2 \<and>
   final_cost (fst (ceres_Solve (+) 0 to_zero constant_and_free)) = 1 / 2"
proof -
  have h: "\<forall>rb\<in>set (residual_blocks constant_and_free). \<forall>i\<in>set (parameter_block_ids rb).
       i < length (parameter_blocks constant_and_free) \<and>
       is_constant (parameter_blocks constant_and_free ! i)"
    by (simp add: constant_and_free_def)
  have i: "initial_cost (fst (ceres_Solve (+) 0 to_zero constant_and_free)) = 1 / 2"
    by (simp add: ceres_Solve_def Let_def evaluate_cost_eq constant_and_free_def varying_def
        total_cost_def block_cost_def)
  have p: "parameter_blocks (snd (ceres_Solve (+) 0 to_zero constant_and_free)) =
     [\<lparr>state = 1, is_constant = True\<rparr>, \<lparr>state = 0, is_constant = False\<rparr>]"
    by (simp add: ceres_Solve_def Let_def evaluate_cost_eq constant_and_free_def varying_def
        to_zero_def)
  from constant_blocks_unchanged[of "(+)" 0 to_zero constant_and_free] h i p
  show ?thesis by (simp add: constant_and_free_def)
qed

end
